theory Spec2Isabelle
  imports Main "HOL-Library.AList"
begin

section \<open>Python values\<close>

text \<open>
  The two modules handle three kinds of dynamically typed data: the parameters of the
  invocation, the documents that \<^verbatim>\<open>yaml.safe_load\<close> decodes from the output of the
  \<^verbatim>\<open>incus\<close> command, and the document of the declaration file. They are modelled by
  one datatype of Python values: \<^verbatim>\<open>None\<close>, booleans, integers, strings, lists and
  dictionaries. A dictionary is an association list in insertion order, as Python keeps it;
  its keys are strings and are distinct in every dictionary that enters the model (the
  operations below keep them distinct). Floating-point numbers and dictionaries with keys
  that are not strings are outside the model.
\<close>

datatype pyval =
    PNone
  | PBool bool
  | PInt int
  | PStr string
  | PList "pyval list"
  | PDict "(string \<times> pyval) list"

text \<open>The exception classes that the code can meet.\<close>

datatype exc_class = TypeError | AttributeError | KeyError | ImportError | YAMLError | OSError

text \<open>Truth value of a Python object, as \<^verbatim>\<open>if x:\<close> and \<^verbatim>\<open>not x\<close> take it.\<close>

fun truthy :: "pyval \<Rightarrow> bool" where
  "truthy PNone = False"
| "truthy (PBool b) = b"
| "truthy (PInt i) = (i \<noteq> 0)"
| "truthy (PStr s) = (s \<noteq> [])"
| "truthy (PList xs) = (xs \<noteq> [])"
| "truthy (PDict d) = (d \<noteq> [])"

text \<open>
  An optional string parameter is \<^verbatim>\<open>None\<close> or a string; \<^verbatim>\<open>if self.x:\<close> holds for
  a string that is not empty.
\<close>

fun given :: "string option \<Rightarrow> bool" where
  "given None = False"
| "given (Some s) = (s \<noteq> [])"

text \<open>\<^verbatim>\<open>"{}".format(x)\<close> for an optional string: \<^verbatim>\<open>None\<close> is written \<^verbatim>\<open>None\<close>.\<close>

fun fmt :: "string option \<Rightarrow> string" where
  "fmt None = ''None''"
| "fmt (Some s) = s"

subsection \<open>\<^verbatim>\<open>str\<close> and \<^verbatim>\<open>repr\<close>\<close>

definition digit_char :: "nat \<Rightarrow> char" where
  "digit_char d = char_of (48 + d)"

function dec_digits :: "nat \<Rightarrow> string" where
  "dec_digits n = (if n < 10 then [digit_char n] else dec_digits (n div 10) @ [digit_char (n mod 10)])"
  by pat_completeness auto
termination
  by (relation "measure id") auto

definition int_str :: "int \<Rightarrow> string" where
  "int_str i = (if i < 0 then CHR ''-'' # dec_digits (nat (- i)) else dec_digits (nat i))"

definition hex_char :: "nat \<Rightarrow> char" where
  "hex_char d = (if d < 10 then char_of (48 + d) else char_of (87 + d))"

text \<open>
  \<^verbatim>\<open>repr\<close> of a string: single quotes, unless the string holds a single quote and no
  double quote; the quote and the backslash are escaped, so are tab, newline, carriage
  return, and as \<^verbatim>\<open>\xhh\<close> the other characters that Python does not print: the
  control characters below 32, and 127 to 160 and 173. A character here is a code point
  below 256.
\<close>

definition repr_char :: "char \<Rightarrow> char \<Rightarrow> string" where
  "repr_char q c =
     (if c = q \<or> c = CHR 0x5C then [CHR 0x5C, c]
      else if c = CHR 0x09 then [CHR 0x5C, CHR ''t'']
      else if c = CHR 0x0A then [CHR 0x5C, CHR ''n'']
      else if c = CHR 0x0D then [CHR 0x5C, CHR ''r'']
      else if of_char c < (32::nat) \<or> ((127::nat) \<le> of_char c \<and> of_char c \<le> (160::nat))
              \<or> of_char c = (173::nat)
        then [CHR 0x5C, CHR ''x'', hex_char (of_char c div 16), hex_char (of_char c mod 16)]
      else [c])"

definition str_repr :: "string \<Rightarrow> string" where
  "str_repr s =
     (let q = (if CHR 0x27 \<in> set s \<and> CHR 0x22 \<notin> set s then CHR 0x22 else CHR 0x27)
      in [q] @ concat (map (repr_char q) s) @ [q])"

fun join :: "string \<Rightarrow> string list \<Rightarrow> string" where
  "join sep [] = []"
| "join sep [x] = x"
| "join sep (x # y # ys) = x @ sep @ join sep (y # ys)"

fun py_repr :: "pyval \<Rightarrow> string" where
  "py_repr PNone = ''None''"
| "py_repr (PBool b) = (if b then ''True'' else ''False'')"
| "py_repr (PInt i) = int_str i"
| "py_repr (PStr s) = str_repr s"
| "py_repr (PList xs) = ''['' @ join '', '' (map py_repr xs) @ '']''"
| "py_repr (PDict d) =
     ''{'' @ join '', '' (map (\<lambda>(k, v). str_repr k @ '': '' @ py_repr v) d) @ ''}''"

text \<open>\<^verbatim>\<open>str(v)\<close>, which is also what \<^verbatim>\<open>"{}".format(v)\<close> writes.\<close>

fun py_str :: "pyval \<Rightarrow> string" where
  "py_str (PStr s) = s"
| "py_str v = py_repr v"

subsection \<open>Equality, membership and dictionary access\<close>

text \<open>
  \<^verbatim>\<open>a == b\<close>: a boolean is the integer 0 or 1, lists are compared element by element,
  dictionaries by their keys and values whatever the order.
\<close>

function py_eq :: "pyval \<Rightarrow> pyval \<Rightarrow> bool" where
  "py_eq PNone w = (w = PNone)"
| "py_eq (PBool a) w =
     (case w of PBool b \<Rightarrow> a = b | PInt j \<Rightarrow> (if a then 1 else 0) = j | _ \<Rightarrow> False)"
| "py_eq (PInt i) w =
     (case w of PBool b \<Rightarrow> i = (if b then 1 else 0) | PInt j \<Rightarrow> i = j | _ \<Rightarrow> False)"
| "py_eq (PStr s) w = (w = PStr s)"
| "py_eq (PList xs) w =
     (case w of
        PList ys \<Rightarrow> length xs = length ys \<and> (\<forall>(x, y) \<in> set (zip xs ys). py_eq x y)
      | _ \<Rightarrow> False)"
| "py_eq (PDict a) w =
     (case w of
        PDict b \<Rightarrow>
          length a = length b \<and>
          (\<forall>(k, v) \<in> set a. case map_of b k of None \<Rightarrow> False | Some v' \<Rightarrow> py_eq v v')
      | _ \<Rightarrow> False)"
  by pat_completeness auto


lemma size_dict_value: "(k, v) \<in> set a \<Longrightarrow> size v < Suc (size_list (size_prod (\<lambda>_. 0) size) a)"
  by (induction a) auto

termination py_eq
  apply (relation "measure (\<lambda>(v, w). size v)")
    apply simp
   apply (auto dest!: set_zip_leftD simp: less_Suc_eq_le size_list_estimation' dest: size_dict_value)
  done

text \<open>\<^verbatim>\<open>t in s\<close> for two strings: \<open>t\<close> occurs in \<open>s\<close>.\<close>

fun substring :: "string \<Rightarrow> string \<Rightarrow> bool" where
  "substring t [] = (t = [])"
| "substring t (c # s) = (take (length t) (c # s) = t \<or> substring t s)"

text \<open>
  \<^verbatim>\<open>x in c\<close>. A dictionary is asked for a key, a list for an equal element, a string
  for a substring; \<^verbatim>\<open>None\<close>, booleans and integers are not containers.
\<close>

fun py_in :: "pyval \<Rightarrow> pyval \<Rightarrow> exc_class + bool" where
  "py_in x (PDict d) =
     (case x of
        PStr k \<Rightarrow> Inr (k \<in> set (map fst d))
      | PList _ \<Rightarrow> Inl TypeError
      | PDict _ \<Rightarrow> Inl TypeError
      | _ \<Rightarrow> Inr False)"
| "py_in x (PList ys) = Inr (\<exists>y \<in> set ys. py_eq y x)"
| "py_in x (PStr s) = (case x of PStr t \<Rightarrow> Inr (substring t s) | _ \<Rightarrow> Inl TypeError)"
| "py_in x _ = Inl TypeError"

text \<open>\<^verbatim>\<open>d.get(k, default)\<close>: only a dictionary has the method.\<close>

fun py_get :: "pyval \<Rightarrow> string \<Rightarrow> pyval \<Rightarrow> exc_class + pyval" where
  "py_get (PDict d) k dflt = Inr (case map_of d k of Some v \<Rightarrow> v | None \<Rightarrow> dflt)"
| "py_get _ k dflt = Inl AttributeError"

text \<open>\<^verbatim>\<open>d[k]\<close>, \<^verbatim>\<open>d[k] = v\<close> and \<^verbatim>\<open>del d[k]\<close> with a string \<open>k\<close>.\<close>

fun py_getitem :: "pyval \<Rightarrow> string \<Rightarrow> exc_class + pyval" where
  "py_getitem (PDict d) k = (case map_of d k of Some v \<Rightarrow> Inr v | None \<Rightarrow> Inl KeyError)"
| "py_getitem _ k = Inl TypeError"

fun py_setitem :: "pyval \<Rightarrow> string \<Rightarrow> pyval \<Rightarrow> exc_class + pyval" where
  "py_setitem (PDict d) k v = Inr (PDict (AList.update k v d))"
| "py_setitem _ k v = Inl TypeError"

fun py_delitem :: "pyval \<Rightarrow> string \<Rightarrow> exc_class + pyval" where
  "py_delitem (PDict d) k =
     (if k \<in> set (map fst d) then Inr (PDict (AList.delete k d)) else Inl KeyError)"
| "py_delitem _ k = Inl TypeError"

section \<open>The invocation and the gateway\<close>

text \<open>
  An invocation ends in one of three ways: \<^verbatim>\<open>module.exit_json(changed=..., msg=...)\<close>,
  \<^verbatim>\<open>module.fail_json(msg=..., stdout=..., stderr=...)\<close> (both leave the process), or an
  exception that nothing catches.
\<close>

datatype outcome =
    ExitJson bool string
  | FailJson string "(string \<times> string) option"
  | Uncaught exc_class

text \<open>
  A command is the argument vector given to \<^verbatim>\<open>subprocess.Popen\<close> and the text written
  to its standard input, if any. The gateway answers a command with exit status, standard
  output and standard error; its answer may depend on the commands that ran before, which
  is how a \<^verbatim>\<open>create\<close> changes what a later \<^verbatim>\<open>show\<close> prints. The other collaborators
  are the YAML decoder and encoder and the file system, which the modules only read. A
  decoder or a file read that raises gives the class of the exception and its text. The
  process is taken to start and to end, and its output to be text already: starting the
  process, waiting for it and decoding its bytes are the gateway's own.
\<close>

type_synonym command = "string list \<times> string option"

record env =
  gateway :: "command list \<Rightarrow> command \<Rightarrow> int \<times> string \<times> string"
  yaml_safe_load :: "string \<Rightarrow> (exc_class \<times> string) + pyval"
  yaml_dump :: "pyval \<Rightarrow> string"
  path_exists :: "string \<Rightarrow> bool"
  open_read :: "string \<Rightarrow> (exc_class \<times> string) + string"

text \<open>
  A method of either class takes the commands run so far and gives them back extended,
  with its value, or with the outcome when it ended the invocation.
\<close>

type_synonym 'a prog = "command list \<Rightarrow> (outcome + 'a) \<times> command list"

definition ret :: "'a \<Rightarrow> 'a prog" where
  "ret x = (\<lambda>tr. (Inr x, tr))"

definition stop :: "outcome \<Rightarrow> 'a prog" where
  "stop out = (\<lambda>tr. (Inl out, tr))"

definition bind :: "'a prog \<Rightarrow> ('a \<Rightarrow> 'b prog) \<Rightarrow> 'b prog" where
  "bind m f = (\<lambda>tr. case m tr of (Inl out, tr') \<Rightarrow> (Inl out, tr') | (Inr x, tr') \<Rightarrow> f x tr')"

definition exit_json :: "bool \<Rightarrow> string \<Rightarrow> 'a prog" where
  "exit_json changed msg = stop (ExitJson changed msg)"

definition fail_json :: "string \<Rightarrow> (string \<times> string) option \<Rightarrow> 'a prog" where
  "fail_json msg streams = stop (FailJson msg streams)"

text \<open>A Python operation that may raise, inside a method: the exception is not caught.\<close>

definition raising :: "exc_class + 'a \<Rightarrow> 'a prog" where
  "raising r = (case r of Inl e \<Rightarrow> stop (Uncaught e) | Inr x \<Rightarrow> ret x)"

text \<open>\<^verbatim>\<open>cmd = ['incus']; if self.project: cmd.extend(['--project', self.project])\<close>\<close>

definition incus_cmd :: "string option \<Rightarrow> string list \<Rightarrow> string list" where
  "incus_cmd project args =
     ''incus'' # (if given project then [''--project'', fmt project] else []) @ args"

text \<open>
  \<^verbatim>\<open>"{}:{}".format(self.remote, x) if self.remote and self.remote != 'local' else x\<close>,
  the prefix that every method puts before the profile, the pool or the instance.
\<close>

definition qualify :: "string option \<Rightarrow> string \<Rightarrow> string" where
  "qualify remote x =
     (if given remote \<and> remote \<noteq> Some ''local'' then fmt remote @ '':'' @ x else x)"

section \<open>The profile module\<close>

text \<open>
  The parameters of \<^verbatim>\<open>incus_profile\<close> as its \<^verbatim>\<open>argument_spec\<close> declares them, with
  the check mode of the invocation. Only \<^verbatim>\<open>name\<close> is required; \<^verbatim>\<open>state\<close> is one of
  two choices. The fields carry the prefix \<open>p_\<close> because the volume module has
  parameters of the same names.
\<close>

datatype profile_state = Present | Absent

record profile_params =
  p_name :: string
  p_source :: "string option"
  p_description :: "string option"
  p_config :: "(string \<times> pyval) list option"
  p_devices :: "(string \<times> pyval) list option"
  p_state :: profile_state
  p_rename_from :: "string option"
  p_remote :: "string option"
  p_project :: "string option"
  p_check_mode :: bool

subsection \<open>\<^verbatim>\<open>load_source\<close> and \<^verbatim>\<open>get_desired_state\<close>\<close>

definition load_source :: "env \<Rightarrow> profile_params \<Rightarrow> outcome + pyval" where
  "load_source env p =
     (if \<not> given (p_source p) then Inr (PDict [])
      else if \<not> path_exists env (fmt (p_source p))
        then Inl (FailJson (''Source file '' @ [CHR 0x27] @ fmt (p_source p) @ [CHR 0x27] @ '' not found'') None)
      else
        (case open_read env (fmt (p_source p)) of
           Inl (c, m) \<Rightarrow>
             Inl (FailJson (''Failed to read source file '' @ [CHR 0x27] @ fmt (p_source p) @ [CHR 0x27]
                              @ '': '' @ m) None)
         | Inr text \<Rightarrow>
             (case yaml_safe_load env text of
                Inl (c, m) \<Rightarrow>
                  Inl (FailJson (''Failed to read source file '' @ [CHR 0x27] @ fmt (p_source p) @ [CHR 0x27]
                                   @ '': '' @ m) None)
              | Inr v \<Rightarrow> Inr (if truthy v then v else PDict []))))"

text \<open>
  The base of the desired state: the declaration file when \<^verbatim>\<open>source\<close> is given, else a
  copy of the current profile when there is one, else the empty skeleton.
\<close>

definition base_state :: "env \<Rightarrow> profile_params \<Rightarrow> pyval \<Rightarrow> outcome + pyval" where
  "base_state env p current_profile =
     (case load_source env p of
        Inl out \<Rightarrow> Inl out
      | Inr desired \<Rightarrow>
          Inr (if \<not> given (p_source p) \<and> truthy current_profile then current_profile
               else if \<not> given (p_source p) \<and> \<not> truthy current_profile
                 then PDict [(''config'', PDict []), (''devices'', PDict []), (''description'', PStr [])]
               else desired))"

text \<open>\<^verbatim>\<open>if self.description is not None: desired['description'] = self.description\<close>\<close>

definition set_description :: "string option \<Rightarrow> pyval \<Rightarrow> exc_class + pyval" where
  "set_description d desired =
     (case d of None \<Rightarrow> Inr desired | Some s \<Rightarrow> py_setitem desired ''description'' (PStr s))"

text \<open>
  \<^verbatim>\<open>if key not in desired or desired[key] is None: desired[key] = {}\<close>, for
  \<^verbatim>\<open>'config'\<close> and for \<^verbatim>\<open>'devices'\<close>.
\<close>

definition ensure_dict :: "string \<Rightarrow> pyval \<Rightarrow> exc_class + pyval" where
  "ensure_dict key desired =
     (case py_in (PStr key) desired of
        Inl e \<Rightarrow> Inl e
      | Inr False \<Rightarrow> py_setitem desired key (PDict [])
      | Inr True \<Rightarrow>
          (case py_getitem desired key of
             Inl e \<Rightarrow> Inl e
           | Inr v \<Rightarrow> if v = PNone then py_setitem desired key (PDict []) else Inr desired))"

text \<open>
  The loop over \<^verbatim>\<open>self.config.items()\<close>, on the object \<^verbatim>\<open>desired['config']\<close>: a
  \<^verbatim>\<open>None\<close> value deletes the key when it is there, any other value is written as its
  \<^verbatim>\<open>str\<close>.
\<close>

fun merge_config :: "pyval \<Rightarrow> (string \<times> pyval) list \<Rightarrow> exc_class + pyval" where
  "merge_config c [] = Inr c"
| "merge_config c ((k, v) # kvs) =
     (if v = PNone then
        (case py_in (PStr k) c of
           Inl e \<Rightarrow> Inl e
         | Inr True \<Rightarrow> (case py_delitem c k of Inl e \<Rightarrow> Inl e | Inr c' \<Rightarrow> merge_config c' kvs)
         | Inr False \<Rightarrow> merge_config c kvs)
      else
        (case py_setitem c k (PStr (py_str v)) of
           Inl e \<Rightarrow> Inl e
         | Inr c' \<Rightarrow> merge_config c' kvs))"

text \<open>
  The loop over \<^verbatim>\<open>self.devices.items()\<close>, on the object \<^verbatim>\<open>desired['devices']\<close>:
  \<^verbatim>\<open>desired['devices'][k] = v\<close>.
\<close>

fun merge_devices :: "pyval \<Rightarrow> (string \<times> pyval) list \<Rightarrow> exc_class + pyval" where
  "merge_devices c [] = Inr c"
| "merge_devices c ((k, v) # kvs) =
     (case py_setitem c k v of Inl e \<Rightarrow> Inl e | Inr c' \<Rightarrow> merge_devices c' kvs)"

text \<open>
  One parameter merged into the desired state. The loops change the dictionary
  \<^verbatim>\<open>desired[key]\<close> in place; here the changed dictionary is put back under its key,
  which keeps its place in \<^verbatim>\<open>desired\<close>.
\<close>

definition merge_param ::
  "string \<Rightarrow> (pyval \<Rightarrow> (string \<times> pyval) list \<Rightarrow> exc_class + pyval) \<Rightarrow>
   (string \<times> pyval) list option \<Rightarrow> pyval \<Rightarrow> exc_class + pyval" where
  "merge_param key loop param desired =
     (case param of
        None \<Rightarrow> Inr desired
      | Some kvs \<Rightarrow>
          (case ensure_dict key desired of
             Inl e \<Rightarrow> Inl e
           | Inr desired1 \<Rightarrow>
               (case py_getitem desired1 key of
                  Inl e \<Rightarrow> Inl e
                | Inr c \<Rightarrow>
                    (case loop c kvs of
                       Inl e \<Rightarrow> Inl e
                     | Inr c' \<Rightarrow> py_setitem desired1 key c'))))"

definition merge_params :: "profile_params \<Rightarrow> pyval \<Rightarrow> exc_class + pyval" where
  "merge_params p desired =
     (case set_description (p_description p) desired of
        Inl e \<Rightarrow> Inl e
      | Inr d1 \<Rightarrow>
          (case merge_param ''config'' merge_config (p_config p) d1 of
             Inl e \<Rightarrow> Inl e
           | Inr d2 \<Rightarrow> merge_param ''devices'' merge_devices (p_devices p) d2))"

definition get_desired_state :: "env \<Rightarrow> profile_params \<Rightarrow> pyval \<Rightarrow> outcome + pyval" where
  "get_desired_state env p current_profile =
     (case base_state env p current_profile of
        Inl out \<Rightarrow> Inl out
      | Inr desired \<Rightarrow>
          (case merge_params p desired of
             Inl e \<Rightarrow> Inl (Uncaught e)
           | Inr desired' \<Rightarrow> Inr desired'))"

subsection \<open>The gateway calls of the profile module\<close>

text \<open>
  \<^verbatim>\<open>run_incus\<close> returns the same triple whatever \<^verbatim>\<open>check_rc\<close> is, so the model has no
  such argument. \<^verbatim>\<open>run_incus_input\<close> writes \<^verbatim>\<open>input_data\<close> to the standard input.
\<close>

definition profile_run_incus :: "env \<Rightarrow> profile_params \<Rightarrow> string list \<Rightarrow> (int \<times> string \<times> string) prog" where
  "profile_run_incus env p args =
     (\<lambda>tr. let c = (incus_cmd (p_project p) args, None) in (Inr (gateway env tr c), tr @ [c]))"

definition profile_run_incus_input ::
  "env \<Rightarrow> profile_params \<Rightarrow> string list \<Rightarrow> string \<Rightarrow> (int \<times> string \<times> string) prog" where
  "profile_run_incus_input env p args input_data =
     (\<lambda>tr. let c = (incus_cmd (p_project p) args, Some input_data)
           in (Inr (gateway env tr c), tr @ [c]))"

definition profile_target :: "profile_params \<Rightarrow> string" where
  "profile_target p = qualify (p_remote p) (p_name p)"

text \<open>\<^verbatim>\<open>get_profile\<close>: the bare \<^verbatim>\<open>except:\<close> swallows every exception of the decoder.\<close>

definition get_profile :: "env \<Rightarrow> profile_params \<Rightarrow> pyval prog" where
  "get_profile env p =
     bind (profile_run_incus env p [''profile'', ''show'', profile_target p])
       (\<lambda>(rc, out, err).
          ret (if rc = 0 then (case yaml_safe_load env out of Inr v \<Rightarrow> v | Inl e \<Rightarrow> PNone)
               else PNone))"

definition profile_exists :: "env \<Rightarrow> profile_params \<Rightarrow> bool prog" where
  "profile_exists env p = bind (get_profile env p) (\<lambda>v. ret (v \<noteq> PNone))"

text \<open>\<^verbatim>\<open>current.get(key) != desired.get(key)\<close>\<close>

definition field_differs :: "pyval \<Rightarrow> pyval \<Rightarrow> string \<Rightarrow> exc_class + bool" where
  "field_differs current desired key =
     (case py_get current key PNone of
        Inl e \<Rightarrow> Inl e
      | Inr a \<Rightarrow> (case py_get desired key PNone of Inl e \<Rightarrow> Inl e | Inr b \<Rightarrow> Inr (\<not> py_eq a b)))"

definition profile_differs :: "pyval \<Rightarrow> pyval \<Rightarrow> exc_class + bool" where
  "profile_differs current desired =
     (case field_differs current desired ''description'' of
        Inl e \<Rightarrow> Inl e
      | Inr u1 \<Rightarrow>
          (case field_differs current desired ''config'' of
             Inl e \<Rightarrow> Inl e
           | Inr u2 \<Rightarrow>
               (case field_differs current desired ''devices'' of
                  Inl e \<Rightarrow> Inl e
                | Inr u3 \<Rightarrow> Inr (u1 \<or> u2 \<or> u3))))"

definition profile_update :: "env \<Rightarrow> profile_params \<Rightarrow> bool \<Rightarrow> unit prog" where
  "profile_update env p new_create =
     bind (get_profile env p) (\<lambda>current.
       if \<not> truthy current then fail_json ''Profile not found for update'' None
       else
         (case get_desired_state env p current of
            Inl out \<Rightarrow> stop out
          | Inr desired \<Rightarrow>
              bind (raising (profile_differs current desired)) (\<lambda>updated.
                if \<not> updated \<and> \<not> new_create then exit_json False ''Profile matches configuration''
                else if p_check_mode p then exit_json True ''Profile would be updated''
                else
                  bind (profile_run_incus_input env p [''profile'', ''edit'', profile_target p]
                          (yaml_dump env desired))
                    (\<lambda>(rc, out, err).
                       if rc \<noteq> 0 then fail_json (''Failed to update profile: '' @ err) (Some (out, err))
                       else exit_json True ''Profile updated''))))"

definition profile_create :: "env \<Rightarrow> profile_params \<Rightarrow> unit prog" where
  "profile_create env p =
     bind (profile_run_incus env p [''profile'', ''create'', profile_target p])
       (\<lambda>(rc, out, err).
          if rc \<noteq> 0 then fail_json (''Failed to create profile: '' @ err) (Some (out, err))
          else profile_update env p True)"

definition profile_delete :: "env \<Rightarrow> profile_params \<Rightarrow> unit prog" where
  "profile_delete env p =
     (if p_check_mode p then exit_json True ''Profile would be deleted''
      else
        bind (profile_run_incus env p [''profile'', ''delete'', profile_target p])
          (\<lambda>(rc, out, err).
             if rc \<noteq> 0 then fail_json (''Failed to delete profile: '' @ err) (Some (out, err))
             else exit_json True ''Profile deleted''))"

definition profile_run :: "env \<Rightarrow> profile_params \<Rightarrow> unit prog" where
  "profile_run env p =
     bind (get_profile env p) (\<lambda>profile.
       case p_state p of
         Present \<Rightarrow>
           if \<not> truthy profile then
             (if p_check_mode p then exit_json True ''Profile would be created''
              else profile_create env p)
           else profile_update env p False
       | Absent \<Rightarrow>
           if truthy profile then profile_delete env p
           else exit_json False ''Profile not found'')"

section \<open>The storage volume module\<close>

text \<open>
  The parameters of \<^verbatim>\<open>incus_storage_volume\<close>. Only \<^verbatim>\<open>pool\<close> is required, so the
  name of the volume may be \<^verbatim>\<open>None\<close>; \<^verbatim>\<open>type\<close> has a default and is a string;
  \<^verbatim>\<open>state\<close> is one of six choices.
\<close>

datatype volume_state = VPresent | VAbsent | VRestored | VExported | VImported | VCopied

record volume_params =
  v_pool :: string
  v_name :: "string option"
  v_type :: string
  v_config :: "(string \<times> pyval) list option"
  v_description :: "string option"
  v_state :: volume_state
  v_content_type :: "string option"
  v_remote :: "string option"
  v_project :: "string option"
  v_snapshot :: "string option"
  v_export_to :: "string option"
  v_import_from :: "string option"
  v_target_pool :: "string option"
  v_target_volume :: "string option"
  v_move :: bool
  v_target :: "string option"
  v_attach_to :: "string option"
  v_attach_path :: "string option"
  v_attach_device :: "string option"
  v_check_mode :: bool

text \<open>\<^verbatim>\<open>self.attach_device = module.params['attach_device'] or self.name\<close>\<close>

definition attach_device :: "volume_params \<Rightarrow> string option" where
  "attach_device p = (if given (v_attach_device p) then v_attach_device p else v_name p)"

text \<open>
  An argument list of this module may hold \<^verbatim>\<open>None\<close> (the name was not given); then
  \<^verbatim>\<open>subprocess.Popen\<close> raises \<^verbatim>\<open>TypeError\<close> and no process is started.
\<close>

definition volume_run_incus ::
  "env \<Rightarrow> volume_params \<Rightarrow> string option list \<Rightarrow> (int \<times> string \<times> string) prog" where
  "volume_run_incus env p args =
     (\<lambda>tr. if None \<in> set args then (Inl (Uncaught TypeError), tr)
           else let c = (incus_cmd (v_project p) (map fmt args), None)
                in (Inr (gateway env tr c), tr @ [c]))"

definition target_pool :: "volume_params \<Rightarrow> string" where
  "target_pool p = qualify (v_remote p) (v_pool p)"

text \<open>
  \<^verbatim>\<open>get_volume_info\<close>: the handler is \<^verbatim>\<open>except ImportError\<close>, so any other exception of
  the decoder leaves the method.
\<close>

definition get_volume_info :: "env \<Rightarrow> volume_params \<Rightarrow> pyval prog" where
  "get_volume_info env p =
     bind (volume_run_incus env p
             [Some ''storage'', Some ''volume'', Some ''show'', Some (target_pool p), v_name p])
       (\<lambda>(rc, out, err).
          if rc = 0 then
            (case yaml_safe_load env out of
               Inr v \<Rightarrow> ret v
             | Inl (c, m) \<Rightarrow> if c = ImportError then ret PNone else stop (Uncaught c))
          else ret PNone)"

definition volume_exists :: "env \<Rightarrow> volume_params \<Rightarrow> bool prog" where
  "volume_exists env p = bind (get_volume_info env p) (\<lambda>v. ret (v \<noteq> PNone))"

definition snapshot_exists :: "env \<Rightarrow> volume_params \<Rightarrow> bool prog" where
  "snapshot_exists env p =
     bind (volume_run_incus env p
             [Some ''storage'', Some ''volume'', Some ''show'', Some (target_pool p),
              Some (fmt (v_name p) @ ''/'' @ fmt (v_snapshot p))])
       (\<lambda>(rc, out, err). ret (rc = 0))"

subsection \<open>Attachment\<close>

definition attach_instance :: "volume_params \<Rightarrow> string option" where
  "attach_instance p =
     (if given (v_remote p) \<and> v_remote p \<noteq> Some ''local''
      then Some (fmt (v_remote p) @ '':'' @ fmt (v_attach_to p))
      else v_attach_to p)"

fun opt_val :: "string option \<Rightarrow> pyval" where
  "opt_val None = PNone"
| "opt_val (Some s) = PStr s"

text \<open>
  \<^verbatim>\<open>check_if_attached\<close>. The first call's output goes to \<^verbatim>\<open>json.loads\<close> under a bare
  \<^verbatim>\<open>except:\<close> and the result is dropped, so only the call itself is modelled. The second
  handler is \<^verbatim>\<open>except ImportError\<close> again.
\<close>

definition check_if_attached :: "env \<Rightarrow> volume_params \<Rightarrow> bool prog" where
  "check_if_attached env p =
     bind (volume_run_incus env p
             [Some ''config'', Some ''device'', Some ''list'', attach_instance p, Some ''--format=json''])
       (\<lambda>_.
          bind (volume_run_incus env p [Some ''config'', Some ''show'', attach_instance p])
            (\<lambda>(rc, out, err).
               if rc = 0 then
                 (case yaml_safe_load env out of
                    Inl (c, m) \<Rightarrow> if c = ImportError then ret False else stop (Uncaught c)
                  | Inr data \<Rightarrow>
                      bind (raising (py_get data ''devices'' (PDict []))) (\<lambda>devices.
                        bind (raising (py_in (opt_val (attach_device p)) devices)) (\<lambda>found.
                          ret found)))
               else ret False))"

text \<open>
  The argument list that \<^verbatim>\<open>attach_volume\<close> builds, in the three steps of the code:
  the fixed part, the device name, the mount path.
\<close>

definition use_default_device_name :: "volume_params \<Rightarrow> bool" where
  "use_default_device_name p = (attach_device p = v_name p)"

definition has_path :: "volume_params \<Rightarrow> bool" where
  "has_path p = (given (v_attach_path p) \<and> v_type p = ''filesystem'' \<and> v_content_type p \<noteq> Some ''iso'')"

definition attach_base_args :: "volume_params \<Rightarrow> string option list" where
  "attach_base_args p =
     [Some ''storage'', Some ''volume'', Some ''attach'', Some (target_pool p), v_name p, v_attach_to p]"

definition attach_args :: "volume_params \<Rightarrow> string option list" where
  "attach_args p =
     (let cmd_args = attach_base_args p;
          cmd_args = (if \<not> use_default_device_name p \<or> has_path p
                      then cmd_args @ [attach_device p] else cmd_args);
          cmd_args = (if has_path p then cmd_args @ [v_attach_path p] else cmd_args)
      in cmd_args)"

definition attach_volume :: "env \<Rightarrow> volume_params \<Rightarrow> unit prog" where
  "attach_volume env p =
     (if v_check_mode p then ret ()
      else
        bind (volume_run_incus env p (attach_args p))
          (\<lambda>(rc, out, err).
             if rc \<noteq> 0
             then fail_json (''Failed to attach volume: '' @ err @ '' CMD: '' @ join '' '' (map fmt (attach_args p)))
                    (Some (out, err))
             else ret ()))"

subsection \<open>Create, update, delete\<close>

definition snapshot_create_args :: "volume_params \<Rightarrow> string option list" where
  "snapshot_create_args p =
     [Some ''storage'', Some ''volume'', Some ''snapshot'', Some ''create'', Some (target_pool p),
      v_name p, v_snapshot p]"

definition volume_create_args :: "volume_params \<Rightarrow> string option list" where
  "volume_create_args p =
     [Some ''storage'', Some ''volume'', Some ''create'', Some (target_pool p), v_name p]
     @ (if given (v_description p) then [Some ''--description'', v_description p] else [])
     @ (if given (v_content_type p) then [Some (''--type='' @ fmt (v_content_type p))]
        else if v_type p = ''block'' then [Some ''--type=block''] else [])
     @ (if given (v_target p) then [Some (''--target='' @ fmt (v_target p))] else [])
     @ (case v_config p of
          None \<Rightarrow> []
        | Some kvs \<Rightarrow> map (\<lambda>(k, v). Some (k @ ''='' @ py_str v)) kvs)"

definition volume_create :: "env \<Rightarrow> volume_params \<Rightarrow> unit prog" where
  "volume_create env p =
     (if given (v_snapshot p) then
        bind (snapshot_exists env p) (\<lambda>ex.
          if ex then exit_json False ''Snapshot already exists''
          else if v_check_mode p then exit_json True ''Snapshot would be created''
          else
            bind (volume_run_incus env p (snapshot_create_args p))
              (\<lambda>(rc, out, err).
                 if rc \<noteq> 0 then fail_json (''Failed to create snapshot: '' @ err) (Some (out, err))
                 else exit_json True ''Snapshot created''))
      else if v_check_mode p then exit_json True ''Storage volume would be created''
      else
        bind (volume_run_incus env p (volume_create_args p))
          (\<lambda>(rc, out, err).
             if rc \<noteq> 0 then fail_json (''Failed to create storage volume: '' @ err) (Some (out, err))
             else
               bind (if given (v_attach_to p) then attach_volume env p else ret ())
                 (\<lambda>_. exit_json True ''Storage volume created'')))"

text \<open>
  The loop of \<^verbatim>\<open>update\<close> over \<^verbatim>\<open>self.config.items()\<close>, with its two variables
  \<^verbatim>\<open>changed\<close> and \<^verbatim>\<open>msgs\<close>.
\<close>

fun update_config ::
  "env \<Rightarrow> volume_params \<Rightarrow> pyval \<Rightarrow> (string \<times> pyval) list \<Rightarrow> bool \<times> string list \<Rightarrow>
   (bool \<times> string list) prog" where
  "update_config env p current_config [] st = ret st"
| "update_config env p current_config ((k, v) # kvs) st =
     bind (raising (py_get current_config k (PStr []))) (\<lambda>curr_val.
       if py_str curr_val \<noteq> py_str v then
         bind (if \<not> v_check_mode p then
                 bind (volume_run_incus env p
                         [Some ''storage'', Some ''volume'', Some ''set'', Some (target_pool p), v_name p,
                          Some (k @ ''='' @ py_str v)])
                   (\<lambda>(rc, out, err).
                      if rc \<noteq> 0
                      then fail_json (''Failed to set volume config '' @ [CHR 0x27] @ k @ [CHR 0x27] @ '': '' @ err) None
                      else ret ())
               else ret ())
           (\<lambda>_. update_config env p current_config kvs
                  (True, snd st @ [''Updated config '' @ [CHR 0x27] @ k @ [CHR 0x27]]))
       else update_config env p current_config kvs st)"

definition volume_update :: "env \<Rightarrow> volume_params \<Rightarrow> pyval \<Rightarrow> unit prog" where
  "volume_update env p current_info =
     bind (case v_config p of
             None \<Rightarrow> ret (False, [])
           | Some kvs \<Rightarrow>
               if kvs = [] then ret (False, [])
               else
                 bind (raising (py_get current_info ''config'' (PDict []))) (\<lambda>current_config.
                   update_config env p current_config kvs (False, [])))
       (\<lambda>st.
          bind (if given (v_attach_to p) then
                  bind (check_if_attached env p) (\<lambda>is_attached.
                    if \<not> is_attached then
                      bind (attach_volume env p) (\<lambda>_.
                        ret (True, snd st @ [''Attached to instance '' @ [CHR 0x27] @ fmt (v_attach_to p) @ [CHR 0x27]]))
                    else ret st)
                else ret st)
            (\<lambda>st'.
               if fst st' then exit_json True (join '', '' (snd st'))
               else exit_json False ''Storage volume matches configuration''))"

definition volume_delete :: "env \<Rightarrow> volume_params \<Rightarrow> unit prog" where
  "volume_delete env p =
     (if given (v_snapshot p) then
        bind (snapshot_exists env p) (\<lambda>ex.
          if \<not> ex then exit_json False ''Snapshot not found''
          else if v_check_mode p then exit_json True ''Snapshot would be deleted''
          else
            bind (volume_run_incus env p
                    [Some ''storage'', Some ''volume'', Some ''snapshot'', Some ''delete'',
                     Some (target_pool p), v_name p, v_snapshot p])
              (\<lambda>(rc, out, err).
                 if rc \<noteq> 0 then fail_json (''Failed to delete snapshot: '' @ err) (Some (out, err))
                 else exit_json True ''Snapshot deleted''))
      else if v_check_mode p then exit_json True ''Storage volume would be deleted''
      else
        bind (volume_run_incus env p
                [Some ''storage'', Some ''volume'', Some ''delete'', Some (target_pool p), v_name p])
          (\<lambda>(rc, out, err).
             if rc \<noteq> 0 then fail_json (''Failed to delete storage volume: '' @ err) (Some (out, err))
             else exit_json True ''Storage volume deleted''))"

subsection \<open>Restore, export, import, copy and move\<close>

definition volume_restore :: "env \<Rightarrow> volume_params \<Rightarrow> unit prog" where
  "volume_restore env p =
     (if \<not> given (v_snapshot p)
      then fail_json ([CHR 0x27] @ ''snapshot'' @ [CHR 0x27] @ '' is required for state=restored'') None
      else
        bind (snapshot_exists env p) (\<lambda>ex.
          if \<not> ex then fail_json ''Snapshot not found'' None
          else if v_check_mode p then exit_json True ''Snapshot would be restored''
          else
            bind (volume_run_incus env p
                    [Some ''storage'', Some ''volume'', Some ''snapshot'', Some ''restore'',
                     Some (target_pool p), v_name p, v_snapshot p])
              (\<lambda>(rc, out, err).
                 if rc \<noteq> 0 then fail_json (''Failed to restore snapshot: '' @ err) (Some (out, err))
                 else exit_json True ''Snapshot restored'')))"

definition export_volume :: "env \<Rightarrow> volume_params \<Rightarrow> unit prog" where
  "export_volume env p =
     (if \<not> given (v_export_to p)
      then fail_json ([CHR 0x27] @ ''export_to'' @ [CHR 0x27] @ '' is required for state=exported'') None
      else if v_check_mode p then exit_json True ''Volume would be exported''
      else
        bind (volume_run_incus env p
                [Some ''storage'', Some ''volume'', Some ''export'', Some (target_pool p), v_name p,
                 v_export_to p])
          (\<lambda>(rc, out, err).
             if rc \<noteq> 0 then fail_json (''Failed to export volume: '' @ err) (Some (out, err))
             else exit_json True ''Volume exported''))"

definition import_args :: "volume_params \<Rightarrow> string option list" where
  "import_args p =
     [Some ''storage'', Some ''volume'', Some ''import'', Some (target_pool p), v_import_from p]
     @ (if given (v_name p) then [v_name p] else [])
     @ (if given (v_content_type p) then [Some (''--type='' @ fmt (v_content_type p))] else [])"

definition import_volume :: "env \<Rightarrow> volume_params \<Rightarrow> unit prog" where
  "import_volume env p =
     (if \<not> given (v_import_from p)
      then fail_json ([CHR 0x27] @ ''import_from'' @ [CHR 0x27] @ '' is required for state=imported'') None
      else if v_check_mode p then exit_json True ''Volume would be imported''
      else
        bind (volume_run_incus env p (import_args p))
          (\<lambda>(rc, out, err).
             if rc \<noteq> 0 then fail_json (''Failed to import volume: '' @ err) (Some (out, err))
             else
               bind (if given (v_attach_to p) then attach_volume env p else ret ())
                 (\<lambda>_. exit_json True ''Volume imported'')))"

definition copy_op :: "volume_params \<Rightarrow> string" where
  "copy_op p = (if v_move p then ''move'' else ''copy'')"

definition copy_args :: "volume_params \<Rightarrow> string option list" where
  "copy_args p =
     [Some ''storage'', Some ''volume'', Some (copy_op p),
      Some (qualify (v_remote p) (v_pool p @ ''/'' @ fmt (v_name p))),
      Some (qualify (v_remote p) (fmt (v_target_pool p) @ ''/'' @ fmt (v_target_volume p)))]
     @ (if given (v_target p) then [Some (''--target='' @ fmt (v_target p))] else [])"

definition copy_move :: "env \<Rightarrow> volume_params \<Rightarrow> unit prog" where
  "copy_move env p =
     (if \<not> given (v_target_pool p)
      then fail_json ([CHR 0x27] @ ''target_pool'' @ [CHR 0x27]
                      @ '' is required for state=copied (can be same as source)'') None
      else if \<not> given (v_target_volume p)
      then fail_json ([CHR 0x27] @ ''target_volume'' @ [CHR 0x27] @ '' is required for state=copied'') None
      else if v_check_mode p then exit_json True (''Volume would be '' @ copy_op p @ ''d'')
      else
        bind (volume_run_incus env p (copy_args p))
          (\<lambda>(rc, out, err).
             if rc \<noteq> 0
             then fail_json (''Failed to '' @ copy_op p @ '' volume: '' @ err) (Some (out, err))
             else exit_json True (''Volume '' @ copy_op p @ ''d'')))"

subsection \<open>The dispatcher\<close>

definition volume_run :: "env \<Rightarrow> volume_params \<Rightarrow> unit prog" where
  "volume_run env p =
     (if v_state p = VImported then import_volume env p
      else
        bind (get_volume_info env p) (\<lambda>current_info.
          case v_state p of
            VPresent \<Rightarrow>
              if \<not> truthy current_info \<and> \<not> given (v_snapshot p) then volume_create env p
              else if truthy current_info \<and> given (v_snapshot p) then volume_create env p
              else if truthy current_info \<and> \<not> given (v_snapshot p) then volume_update env p current_info
              else fail_json (''Volume '' @ [CHR 0x27] @ fmt (v_name p) @ [CHR 0x27] @ '' does not exist'') None
          | VAbsent \<Rightarrow>
              if truthy current_info then volume_delete env p
              else exit_json False ''Volume/Snapshot not found''
          | VRestored \<Rightarrow> volume_restore env p
          | VExported \<Rightarrow> export_volume env p
          | VCopied \<Rightarrow>
              if \<not> truthy current_info
              then fail_json (''Source volume '' @ [CHR 0x27] @ fmt (v_name p) @ [CHR 0x27] @ '' not found'') None
              else copy_move env p
          | VImported \<Rightarrow> ret ()))"

section \<open>Reading the record of commands\<close>

text \<open>
  The words of a command after \<^verbatim>\<open>incus\<close> and the project flag. No method of either
  module passes an argument list that starts with \<^verbatim>\<open>--project\<close>.
\<close>

fun subcommand :: "command \<Rightarrow> string list" where
  "subcommand (i # a # b # rest, inp) = (if a = ''--project'' then rest else a # b # rest)"
| "subcommand (i # rest, inp) = rest"
| "subcommand ([], inp) = []"

text \<open>
  The commands that only read: the show of a profile, of a volume or of a snapshot, the
  show of an instance's configuration and the list of its devices.
\<close>

definition read_only :: "command \<Rightarrow> bool" where
  "read_only c =
     (take 2 (subcommand c) = [''profile'', ''show'']
      \<or> take 3 (subcommand c) = [''storage'', ''volume'', ''show'']
      \<or> take 2 (subcommand c) = [''config'', ''show'']
      \<or> take 3 (subcommand c) = [''config'', ''device'', ''list''])"

text \<open>
  The commands that change the external system: create, edit and delete of a profile;
  create, set, delete, export, import, copy, move and attach of a volume; create, delete
  and restore of a snapshot.
\<close>

definition mutating :: "command \<Rightarrow> bool" where
  "mutating c =
     (take 2 (subcommand c) \<in> set [[''profile'', ''create''], [''profile'', ''edit''], [''profile'', ''delete'']]
      \<or> take 3 (subcommand c) \<in> set
           [[''storage'', ''volume'', ''create''], [''storage'', ''volume'', ''set''],
            [''storage'', ''volume'', ''delete''], [''storage'', ''volume'', ''export''],
            [''storage'', ''volume'', ''import''], [''storage'', ''volume'', ''copy''],
            [''storage'', ''volume'', ''move''], [''storage'', ''volume'', ''attach'']]
      \<or> take 4 (subcommand c) \<in> set
           [[''storage'', ''volume'', ''snapshot'', ''create''],
            [''storage'', ''volume'', ''snapshot'', ''delete''],
            [''storage'', ''volume'', ''snapshot'', ''restore'']])"

section \<open>Reading a document\<close>




section \<open>Test doubles and sample invocations\<close>

text \<open>
  A gateway that answers from a script: the words of the command are looked up in a table,
  and a command that is not in the table fails with status 1. A decoder that knows a table
  of documents and raises \<^verbatim>\<open>YAMLError\<close> on any other text.
\<close>

definition scripted_gateway ::
  "(string list \<times> int \<times> string \<times> string) list \<Rightarrow> command list \<Rightarrow> command \<Rightarrow> int \<times> string \<times> string" where
  "scripted_gateway script tr c =
     (case map_of script (subcommand c) of Some r \<Rightarrow> r | None \<Rightarrow> (1, [], ''Error: not found''))"

definition scripted_yaml :: "(string \<times> pyval) list \<Rightarrow> string \<Rightarrow> (exc_class \<times> string) + pyval" where
  "scripted_yaml docs text =
     (case map_of docs text of Some v \<Rightarrow> Inr v | None \<Rightarrow> Inl (YAMLError, ''could not parse''))"

definition demo_env :: "(string list \<times> int \<times> string \<times> string) list \<Rightarrow> (string \<times> pyval) list \<Rightarrow> env" where
  "demo_env script docs =
     \<lparr>gateway = scripted_gateway script, yaml_safe_load = scripted_yaml docs,
      yaml_dump = py_repr, path_exists = (\<lambda>_. False),
      open_read = (\<lambda>_. Inl (OSError, ''No such file or directory''))\<rparr>"

text \<open>The parameters of the two modules with the defaults of their argument specifications.\<close>

definition demo_profile :: profile_params where
  "demo_profile =
     \<lparr>p_name = ''web-profile'', p_source = None, p_description = None, p_config = None,
      p_devices = None, p_state = Present, p_rename_from = None, p_remote = Some ''local'',
      p_project = Some ''default'', p_check_mode = False\<rparr>"

definition demo_volume :: volume_params where
  "demo_volume =
     \<lparr>v_pool = ''default'', v_name = Some ''data-vol'', v_type = ''filesystem'', v_config = None,
      v_description = None, v_state = VPresent, v_content_type = None, v_remote = Some ''local'',
      v_project = Some ''default'', v_snapshot = None, v_export_to = None, v_import_from = None,
      v_target_pool = None, v_target_volume = None, v_move = False, v_target = None,
      v_attach_to = None, v_attach_path = None, v_attach_device = None, v_check_mode = False\<rparr>"

text \<open>A current profile, and the two parameter mappings of the merge examples.\<close>

definition demo_current :: pyval where
  "demo_current =
     PDict [(''config'', PDict [(''a'', PStr ''1''), (''b'', PStr ''2'')]),
            (''description'', PStr ''Profile for web servers''),
            (''devices'', PDict [(''eth0'', PDict [(''type'', PStr ''nic''), (''network'', PStr ''x'')])]),
            (''name'', PStr ''web-profile'')]"



section \<open>Predicates on methods\<close>

text \<open>
  Two predicates for the proofs about the record of commands: a method only adds commands
  that satisfy \<open>P\<close>, whatever ran before; a method always ends the invocation.
\<close>

definition issues_only :: "(command \<Rightarrow> bool) \<Rightarrow> 'a prog \<Rightarrow> bool" where
  "issues_only P m = (\<forall>tr. \<exists>new. snd (m tr) = tr @ new \<and> list_all P new)"

definition ends :: "'a prog \<Rightarrow> bool" where
  "ends m = (\<forall>tr. \<exists>out. fst (m tr) = Inl out)"

text \<open>A volume that exists, as \<^verbatim>\<open>storage volume show\<close> prints it once decoded.\<close>

definition demo_volume_doc :: pyval where
  "demo_volume_doc =
     PDict [(''config'', PDict [(''size'', PStr ''10GiB'')]),
            (''description'', PStr ''old description''),
            (''name'', PStr ''data-vol''),
            (''type'', PStr ''custom''),
            (''content_type'', PStr ''filesystem'')]"

definition volume_show_words :: "string list" where
  "volume_show_words = [''storage'', ''volume'', ''show'', ''default'', ''data-vol'']"

text \<open>
  An external system that has the volume \<^verbatim>\<open>data-vol\<close> in the pool \<^verbatim>\<open>default\<close> and
  nothing else: every other command fails.
\<close>

definition demo_volume_env :: env where
  "demo_volume_env =
     demo_env [(volume_show_words, (0, ''volume-document'', []))] [(''volume-document'', demo_volume_doc)]"

text \<open>
  An external system that has the profile \<^verbatim>\<open>web-profile\<close>, accepts an edit of it and
  fails every other command.
\<close>

definition demo_profile_env :: env where
  "demo_profile_env =
     demo_env [([''profile'', ''show'', ''web-profile''], (0, ''profile-document'', [])),
               ([''profile'', ''edit'', ''web-profile''], (0, [], []))]
       [(''profile-document'', demo_current)]"

text \<open>The rename of a profile, which the command line tool offers as \<^verbatim>\<open>profile rename\<close>.\<close>

definition is_rename :: "command \<Rightarrow> bool" where
  "is_rename c = (take 2 (subcommand c) = [''profile'', ''rename''])"

text \<open>The commands of the profile module: one of four verbs on the profile of the invocation.\<close>

definition profile_command :: "profile_params \<Rightarrow> command \<Rightarrow> bool" where
  "profile_command p c =
     (fst c = incus_cmd (p_project p) [''profile'', ''show'', profile_target p]
      \<or> fst c = incus_cmd (p_project p) [''profile'', ''create'', profile_target p]
      \<or> fst c = incus_cmd (p_project p) [''profile'', ''edit'', profile_target p]
      \<or> fst c = incus_cmd (p_project p) [''profile'', ''delete'', profile_target p])"

text \<open>
  Two external systems whose show command succeeds and prints a text that is not YAML: the
  decoder raises on it.
\<close>

definition malformed_volume_env :: env where
  "malformed_volume_env = demo_env [(volume_show_words, (0, ''config: ['', []))] []"

definition malformed_profile_env :: env where
  "malformed_profile_env = demo_env [([''profile'', ''show'', ''web-profile''], (0, ''config: ['', []))] []"

text \<open>The command of \<^verbatim>\<open>get_volume_info\<close> for a volume named \<open>n\<close>.\<close>

definition volume_show_cmd :: "volume_params \<Rightarrow> string \<Rightarrow> command" where
  "volume_show_cmd p n =
     (incus_cmd (v_project p) [''storage'', ''volume'', ''show'', target_pool p, n], None)"

text \<open>The commands of \<^verbatim>\<open>snapshot_exists\<close> and of the snapshot branch of \<^verbatim>\<open>create\<close>.\<close>

definition snapshot_show_cmd :: "volume_params \<Rightarrow> string \<Rightarrow> command" where
  "snapshot_show_cmd p n =
     (incus_cmd (v_project p)
        [''storage'', ''volume'', ''show'', target_pool p, n @ ''/'' @ fmt (v_snapshot p)], None)"

definition snapshot_create_cmd :: "volume_params \<Rightarrow> command" where
  "snapshot_create_cmd p = (incus_cmd (v_project p) (map fmt (snapshot_create_args p)), None)"

text \<open>
  An external system with a memory: it has the volume \<^verbatim>\<open>data-vol\<close>, it accepts the
  creation of the snapshot \<^verbatim>\<open>s1\<close>, and it shows the snapshot once it has been created.
\<close>

definition snapshot_create_words :: "string list" where
  "snapshot_create_words = [''storage'', ''volume'', ''snapshot'', ''create'', ''default'', ''data-vol'', ''s1'']"

definition snapshot_gateway :: "command list \<Rightarrow> command \<Rightarrow> int \<times> string \<times> string" where
  "snapshot_gateway tr c =
     (if subcommand c = volume_show_words then (0, ''volume-document'', [])
      else if subcommand c = [''storage'', ''volume'', ''show'', ''default'', ''data-vol/s1'']
        then (if list_ex (\<lambda>c'. subcommand c' = snapshot_create_words) tr
              then (0, ''snapshot-document'', []) else (1, [], ''Error: not found''))
      else if subcommand c = snapshot_create_words then (0, [], [])
      else (1, [], ''Error: not found''))"

definition snapshot_env :: env where
  "snapshot_env = demo_volume_env\<lparr>gateway := snapshot_gateway\<rparr>"













section \<open>The desired state of a profile\<close>



















section \<open>The attach command\<close>

text \<open>
  C9. In the argument list that \<^verbatim>\<open>attach_volume\<close> builds, the device name is left
  out exactly when it equals the volume name and no mount path is appended, and the mount
  path is appended exactly when \<^verbatim>\<open>attach_path\<close> is given (a string that is not
  empty), the type is \<^verbatim>\<open>filesystem\<close> and the content type is not \<^verbatim>\<open>iso\<close>. Outside
  check mode this list, after \<^verbatim>\<open>incus\<close> and the project flag, is the command that runs.
\<close>

theorem attach_command_shape:
  "attach_args p =
     attach_base_args p
     @ (if attach_device p = v_name p
           \<and> \<not> (given (v_attach_path p) \<and> v_type p = ''filesystem'' \<and> v_content_type p \<noteq> Some ''iso'')
        then [] else [attach_device p])
     @ (if given (v_attach_path p) \<and> v_type p = ''filesystem'' \<and> v_content_type p \<noteq> Some ''iso''
        then [v_attach_path p] else [])
   \<and> (\<not> v_check_mode p \<and> None \<notin> set (attach_args p) \<longrightarrow>
        snd (attach_volume env p tr) = tr @ [(incus_cmd (v_project p) (map fmt (attach_args p)), None)])"
  by (auto simp: attach_args_def use_default_device_name_def has_path_def attach_volume_def
        volume_run_incus_def bind_def Let_def fail_json_def stop_def ret_def split: prod.splits)

theorem attach_command_shape_witness:
  "attach_args (demo_volume\<lparr>v_attach_to := Some ''my-instance'', v_attach_path := Some ''/mnt/data''\<rparr>) =
     map Some [''storage'', ''volume'', ''attach'', ''default'', ''data-vol'', ''my-instance'', ''data-vol'', ''/mnt/data'']
   \<and> attach_args (demo_volume\<lparr>v_attach_to := Some ''my-instance''\<rparr>) =
     map Some [''storage'', ''volume'', ''attach'', ''default'', ''data-vol'', ''my-instance'']
   \<and> snd (attach_volume (demo_env [] [])
            (demo_volume\<lparr>v_attach_to := Some ''my-instance'', v_attach_path := Some ''/mnt/data''\<rparr>) []) =
     [([''incus'', ''--project'', ''default'', ''storage'', ''volume'', ''attach'', ''default'', ''data-vol'',
        ''my-instance'', ''data-vol'', ''/mnt/data''], None)]"
  using attach_command_shape [of "demo_volume\<lparr>v_attach_to := Some ''my-instance'', v_attach_path := Some ''/mnt/data''\<rparr>" "demo_env [] []" "[]"]
  by (simp add: demo_volume_def attach_base_args_def attach_device_def target_pool_def qualify_def incus_cmd_def
        attach_args_def use_default_device_name_def has_path_def)

section \<open>Dry run\<close>

lemmas demo_defs =
  demo_volume_env_def demo_profile_env_def demo_env_def scripted_gateway_def scripted_yaml_def
  volume_show_words_def demo_volume_def demo_volume_doc_def demo_profile_def demo_current_def

lemmas prog_defs =
  bind_def ret_def stop_def exit_json_def fail_json_def raising_def incus_cmd_def qualify_def

lemmas volume_defs =
  volume_run_def get_volume_info_def volume_run_incus_def target_pool_def snapshot_exists_def

lemmas profile_defs =
  profile_run_def get_profile_def profile_run_incus_def profile_run_incus_input_def profile_target_def
  profile_update_def profile_create_def profile_delete_def get_desired_state_def base_state_def
  load_source_def merge_params_def set_description_def merge_param_def ensure_dict_def
  profile_differs_def field_differs_def

lemma issues_only_ret: "issues_only P (ret x)"
  by (simp add: issues_only_def ret_def)

lemma issues_only_stop: "issues_only P (stop out)"
  by (simp add: issues_only_def stop_def)

lemma issues_only_exit_json: "issues_only P (exit_json ch msg)"
  by (simp add: exit_json_def issues_only_stop)

lemma issues_only_fail_json: "issues_only P (fail_json msg streams)"
  by (simp add: fail_json_def issues_only_stop)

lemma issues_only_raising: "issues_only P (raising r)"
  by (cases r) (simp_all add: raising_def issues_only_stop issues_only_ret)

lemma issues_only_bind:
  assumes "issues_only P m" and "\<And>x. issues_only P (f x)"
  shows "issues_only P (bind m f)"
  unfolding issues_only_def
proof
  fix tr
  from assms(1) obtain new1 where n1: "snd (m tr) = tr @ new1" "list_all P new1"
    by (auto simp: issues_only_def)
  show "\<exists>new. snd (bind m f tr) = tr @ new \<and> list_all P new"
  proof (cases "fst (m tr)")
    case (Inl out)
    with n1 show ?thesis
      by (cases "m tr") (auto simp: bind_def)
  next
    case (Inr x)
    from assms(2) [of x] have "\<exists>new. snd (f x (tr @ new1)) = (tr @ new1) @ new \<and> list_all P new"
      unfolding issues_only_def by blast
    then obtain new2 where
      "snd (f x (tr @ new1)) = (tr @ new1) @ new2" "list_all P new2"
      by blast
    with Inr n1 show ?thesis
      by (cases "m tr") (auto simp: bind_def)
  qed
qed

lemma subcommand_incus_cmd:
  "a \<noteq> ''--project'' \<Longrightarrow> subcommand (incus_cmd proj (a # b # rest), inp) = a # b # rest"
  by (simp add: incus_cmd_def)

lemma issues_only_profile_run_incus:
  "P (incus_cmd (p_project p) args, None) \<Longrightarrow> issues_only P (profile_run_incus env p args)"
  by (simp add: issues_only_def profile_run_incus_def Let_def)

lemma issues_only_profile_run_incus_input:
  "P (incus_cmd (p_project p) args, Some inp) \<Longrightarrow> issues_only P (profile_run_incus_input env p args inp)"
  by (simp add: issues_only_def profile_run_incus_input_def Let_def)

lemma issues_only_volume_run_incus:
  "(None \<notin> set args \<Longrightarrow> P (incus_cmd (v_project p) (map fmt args), None)) \<Longrightarrow>
   issues_only P (volume_run_incus env p args)"
  by (simp add: issues_only_def volume_run_incus_def Let_def)

lemma ends_stop: "ends (stop out)"
  by (simp add: ends_def stop_def)

lemma ends_exit_json: "ends (exit_json ch msg)"
  by (simp add: exit_json_def ends_stop)

lemma ends_fail_json: "ends (fail_json msg streams)"
  by (simp add: fail_json_def ends_stop)

lemma ends_bind: "(\<And>x. ends (f x)) \<Longrightarrow> ends (bind m f)"
  unfolding ends_def bind_def
  by (auto split: prod.splits sum.splits)

lemma take_words2: "take 2 xs = [a, b] \<longleftrightarrow> (\<exists>rest. xs = a # b # rest)"
  by (cases xs; cases "tl xs") auto

lemma take_words3: "take 3 xs = [a, b, c] \<longleftrightarrow> (\<exists>rest. xs = a # b # c # rest)"
  by (cases xs; cases "tl xs"; cases "tl (tl xs)") auto

lemma take_words4: "take 4 xs = [a, b, c, d] \<longleftrightarrow> (\<exists>rest. xs = a # b # c # d # rest)"
  by (cases xs; cases "tl xs"; cases "tl (tl xs)"; cases "tl (tl (tl xs))") auto

lemma read_only_not_mutating: "read_only c \<Longrightarrow> \<not> mutating c"
  unfolding read_only_def mutating_def list.set insert_iff empty_iff take_words2 take_words3 take_words4
  by auto


lemmas issues_only_intros =
  issues_only_bind issues_only_ret issues_only_stop issues_only_exit_json issues_only_fail_json
  issues_only_raising

lemma get_profile_read_only: "issues_only read_only (get_profile env p)"
  unfolding get_profile_def
  by (intro issues_only_bind issues_only_profile_run_incus)
     (auto simp: read_only_def subcommand_incus_cmd issues_only_ret)

lemma profile_update_check_mode:
  "p_check_mode p \<Longrightarrow> issues_only read_only (profile_update env p new_create)"
  unfolding profile_update_def
  by (auto intro!: issues_only_intros get_profile_read_only split: sum.splits)

lemma profile_run_check_mode:
  "p_check_mode p \<Longrightarrow> issues_only read_only (profile_run env p)"
  unfolding profile_run_def profile_delete_def
  by (auto intro!: issues_only_intros get_profile_read_only profile_update_check_mode
           split: profile_state.splits)

lemma get_volume_info_read_only: "issues_only read_only (get_volume_info env p)"
  unfolding get_volume_info_def
  by (intro issues_only_bind issues_only_volume_run_incus)
     (auto simp: read_only_def subcommand_incus_cmd intro!: issues_only_intros split: sum.splits)

lemma snapshot_exists_read_only: "issues_only read_only (snapshot_exists env p)"
  unfolding snapshot_exists_def
  by (intro issues_only_bind issues_only_volume_run_incus)
     (auto simp: read_only_def subcommand_incus_cmd intro!: issues_only_intros)

lemma check_if_attached_read_only: "issues_only read_only (check_if_attached env p)"
  unfolding check_if_attached_def
  by (intro issues_only_bind issues_only_volume_run_incus)
     (auto simp: read_only_def subcommand_incus_cmd intro!: issues_only_intros split: sum.splits)

lemma attach_volume_check_mode: "v_check_mode p \<Longrightarrow> issues_only P (attach_volume env p)"
  by (simp add: attach_volume_def issues_only_ret)

lemma update_config_check_mode:
  "v_check_mode p \<Longrightarrow> issues_only P (update_config env p cc kvs st)"
proof (induction kvs arbitrary: st)
  case Nil
  then show ?case by (simp add: issues_only_ret)
next
  case (Cons kv kvs)
  obtain k v where "kv = (k, v)" by (cases kv)
  with Cons show ?case
    by (cases st) (auto intro!: issues_only_intros)
qed

lemma volume_update_check_mode:
  "v_check_mode p \<Longrightarrow> issues_only read_only (volume_update env p cur)"
  unfolding volume_update_def
  by (auto intro!: issues_only_intros update_config_check_mode check_if_attached_read_only
        attach_volume_check_mode split: option.splits)

lemma volume_create_check_mode:
  "v_check_mode p \<Longrightarrow> issues_only read_only (volume_create env p)"
  unfolding volume_create_def
  by (auto intro!: issues_only_intros snapshot_exists_read_only)

lemma volume_delete_check_mode:
  "v_check_mode p \<Longrightarrow> issues_only read_only (volume_delete env p)"
  unfolding volume_delete_def
  by (auto intro!: issues_only_intros snapshot_exists_read_only)

lemma volume_restore_check_mode:
  "v_check_mode p \<Longrightarrow> issues_only read_only (volume_restore env p)"
  unfolding volume_restore_def
  by (auto intro!: issues_only_intros snapshot_exists_read_only)

lemma volume_run_check_mode:
  "v_check_mode p \<Longrightarrow> issues_only read_only (volume_run env p)"
  unfolding volume_run_def export_volume_def import_volume_def copy_move_def
  by (auto intro!: issues_only_intros get_volume_info_read_only volume_create_check_mode
        volume_update_check_mode volume_delete_check_mode volume_restore_check_mode
        split: volume_state.splits)


lemmas ends_intros = ends_bind ends_stop ends_exit_json ends_fail_json

lemma profile_update_ends: "ends (profile_update env p new_create)"
  unfolding profile_update_def
  by (auto intro!: ends_intros split: sum.splits)

lemma profile_run_ends: "ends (profile_run env p)"
  unfolding profile_run_def profile_create_def profile_delete_def
  by (auto intro!: ends_intros profile_update_ends split: profile_state.splits)

lemma volume_create_ends: "ends (volume_create env p)"
  unfolding volume_create_def
  by (auto intro!: ends_intros)

lemma volume_update_ends: "ends (volume_update env p cur)"
  unfolding volume_update_def
  by (auto intro!: ends_intros)

lemma volume_delete_ends: "ends (volume_delete env p)"
  unfolding volume_delete_def
  by (auto intro!: ends_intros)

lemma volume_restore_ends: "ends (volume_restore env p)"
  unfolding volume_restore_def
  by (auto intro!: ends_intros)

lemma export_volume_ends: "ends (export_volume env p)"
  unfolding export_volume_def
  by (auto intro!: ends_intros)

lemma import_volume_ends: "ends (import_volume env p)"
  unfolding import_volume_def
  by (auto intro!: ends_intros)

lemma copy_move_ends: "ends (copy_move env p)"
  unfolding copy_move_def
  by (auto intro!: ends_intros)

lemma volume_run_ends: "ends (volume_run env p)"
  unfolding volume_run_def
  by (auto intro!: ends_intros volume_create_ends volume_update_ends volume_delete_ends
        volume_restore_ends export_volume_ends import_volume_ends copy_move_ends
        split: volume_state.splits)

lemma issues_only_read_only:
  "issues_only read_only m \<Longrightarrow>
   \<exists>new. snd (m tr) = tr @ new \<and> (\<forall>c \<in> set new. read_only c \<and> \<not> mutating c)"
  unfolding issues_only_def
  by (metis list_all_iff read_only_not_mutating)

text \<open>
  C2, as the code has it. In check mode, whatever the state asked for, the run of either
  module ends the invocation and every command it issues is one that only reads (a show of
  the profile, the volume or the snapshot, the show of the instance's configuration, the
  list of its devices): none of create, edit, set, delete, snapshot create, delete or
  restore, export, import, copy, move and attach is executed. The outcome is a would-change
  or a no-change, or a failure.
\<close>

theorem check_mode_no_mutation:
  "(p_check_mode p \<longrightarrow>
      (\<exists>out. fst (profile_run env p tr) = Inl out)
      \<and> (\<exists>new. snd (profile_run env p tr) = tr @ new \<and> (\<forall>c \<in> set new. read_only c \<and> \<not> mutating c)))
   \<and> (v_check_mode q \<longrightarrow>
      (\<exists>out. fst (volume_run env q tr) = Inl out)
      \<and> (\<exists>new. snd (volume_run env q tr) = tr @ new \<and> (\<forall>c \<in> set new. read_only c \<and> \<not> mutating c)))"
proof (intro conjI impI)
  show "\<exists>out. fst (profile_run env p tr) = Inl out"
    using profile_run_ends by (simp add: ends_def)
  show "\<exists>out. fst (volume_run env q tr) = Inl out"
    using volume_run_ends by (simp add: ends_def)
next
  assume "p_check_mode p"
  then show "\<exists>new. snd (profile_run env p tr) = tr @ new \<and> (\<forall>c \<in> set new. read_only c \<and> \<not> mutating c)"
    by (intro issues_only_read_only profile_run_check_mode)
next
  assume "v_check_mode q"
  then show "\<exists>new. snd (volume_run env q tr) = tr @ new \<and> (\<forall>c \<in> set new. read_only c \<and> \<not> mutating c)"
    by (intro issues_only_read_only volume_run_check_mode)
qed


theorem check_mode_no_mutation_witness:
  "volume_run demo_volume_env
     (demo_volume\<lparr>v_config := Some [(''size'', PStr ''20GiB'')], v_attach_to := Some ''my-instance'',
                   v_check_mode := True\<rparr>) [] =
     (Inl (ExitJson True (''Updated config '' @ [CHR 0x27] @ ''size'' @ [CHR 0x27] @ '', Attached to instance ''
                          @ [CHR 0x27] @ ''my-instance'' @ [CHR 0x27])),
      [([''incus'', ''--project'', ''default'', ''storage'', ''volume'', ''show'', ''default'', ''data-vol''], None),
       ([''incus'', ''--project'', ''default'', ''config'', ''device'', ''list'', ''my-instance'', ''--format=json''], None),
       ([''incus'', ''--project'', ''default'', ''config'', ''show'', ''my-instance''], None)])
   \<and> profile_run demo_profile_env (demo_profile\<lparr>p_description := Some ''new'', p_check_mode := True\<rparr>) [] =
     (Inl (ExitJson True ''Profile would be updated''),
      [([''incus'', ''--project'', ''default'', ''profile'', ''show'', ''web-profile''], None),
       ([''incus'', ''--project'', ''default'', ''profile'', ''show'', ''web-profile''], None)])
   \<and> list_all (\<lambda>c. read_only c \<and> \<not> mutating c)
       (snd (volume_run demo_volume_env
          (demo_volume\<lparr>v_config := Some [(''size'', PStr ''20GiB'')], v_attach_to := Some ''my-instance'',
                        v_check_mode := True\<rparr>) [])
        @ snd (profile_run demo_profile_env (demo_profile\<lparr>p_description := Some ''new'', p_check_mode := True\<rparr>) []))"
proof -
  have v: "volume_run demo_volume_env
     (demo_volume\<lparr>v_config := Some [(''size'', PStr ''20GiB'')], v_attach_to := Some ''my-instance'',
                   v_check_mode := True\<rparr>) [] =
     (Inl (ExitJson True (''Updated config '' @ [CHR 0x27] @ ''size'' @ [CHR 0x27] @ '', Attached to instance ''
                          @ [CHR 0x27] @ ''my-instance'' @ [CHR 0x27])),
      [([''incus'', ''--project'', ''default'', ''storage'', ''volume'', ''show'', ''default'', ''data-vol''], None),
       ([''incus'', ''--project'', ''default'', ''config'', ''device'', ''list'', ''my-instance'', ''--format=json''], None),
       ([''incus'', ''--project'', ''default'', ''config'', ''show'', ''my-instance''], None)])"
    by (simp add: demo_defs prog_defs volume_defs volume_update_def check_if_attached_def
          attach_instance_def attach_volume_def)
  have p: "profile_run demo_profile_env (demo_profile\<lparr>p_description := Some ''new'', p_check_mode := True\<rparr>) [] =
     (Inl (ExitJson True ''Profile would be updated''),
      [([''incus'', ''--project'', ''default'', ''profile'', ''show'', ''web-profile''], None),
       ([''incus'', ''--project'', ''default'', ''profile'', ''show'', ''web-profile''], None)])"
    by (simp add: demo_defs prog_defs profile_defs)
  from check_mode_no_mutation
    [where p = "demo_profile\<lparr>p_description := Some ''new'', p_check_mode := True\<rparr>"
       and env = demo_profile_env and tr = "[]" and q = demo_volume, THEN conjunct1]
    check_mode_no_mutation
    [where q = "demo_volume\<lparr>v_config := Some [(''size'', PStr ''20GiB'')], v_attach_to := Some ''my-instance'',
                      v_check_mode := True\<rparr>"
       and env = demo_volume_env and tr = "[]" and p = demo_profile, THEN conjunct2]
  show ?thesis
    unfolding v p by (simp add: list_all_iff)
qed

text \<open>
  The outcome of a dry run is not always a would-change or a no-change: restoring from a
  snapshot that does not exist fails in check mode as it does outside.
\<close>

theorem check_mode_may_fail:
  "v_check_mode (demo_volume\<lparr>v_state := VRestored, v_snapshot := Some ''s1'', v_check_mode := True\<rparr>)
   \<and> volume_run demo_volume_env
       (demo_volume\<lparr>v_state := VRestored, v_snapshot := Some ''s1'', v_check_mode := True\<rparr>) [] =
     (Inl (FailJson ''Snapshot not found'' None),
      [([''incus'', ''--project'', ''default'', ''storage'', ''volume'', ''show'', ''default'', ''data-vol''], None),
       ([''incus'', ''--project'', ''default'', ''storage'', ''volume'', ''show'', ''default'', ''data-vol/s1''], None)])"
  by (simp add: demo_defs prog_defs volume_defs volume_restore_def)

section \<open>The parameter \<^verbatim>\<open>rename_from\<close>\<close>

lemma rename_from_get_profile: "get_profile env (p\<lparr>p_rename_from := r\<rparr>) = get_profile env p"
  by (simp add: get_profile_def profile_run_incus_def profile_target_def)

lemma rename_from_get_desired_state:
  "get_desired_state env (p\<lparr>p_rename_from := r\<rparr>) cur = get_desired_state env p cur"
  by (simp add: get_desired_state_def base_state_def load_source_def merge_params_def
        cong: sum.case_cong if_cong prod.case_cong)

lemma rename_from_update:
  "profile_update env (p\<lparr>p_rename_from := r\<rparr>) nc = profile_update env p nc"
  by (simp add: profile_update_def rename_from_get_profile rename_from_get_desired_state
        profile_run_incus_input_def profile_target_def cong: sum.case_cong if_cong prod.case_cong)

lemma rename_from_create: "profile_create env (p\<lparr>p_rename_from := r\<rparr>) = profile_create env p"
  by (simp add: profile_create_def rename_from_update profile_run_incus_def profile_target_def
        cong: if_cong prod.case_cong)

lemma rename_from_delete: "profile_delete env (p\<lparr>p_rename_from := r\<rparr>) = profile_delete env p"
  by (simp add: profile_delete_def profile_run_incus_def profile_target_def)

lemma get_profile_commands: "issues_only (profile_command p) (get_profile env p)"
  unfolding get_profile_def
  by (intro issues_only_bind issues_only_profile_run_incus)
     (auto simp: profile_command_def issues_only_ret)

lemma profile_update_commands: "issues_only (profile_command p) (profile_update env p nc)"
  unfolding profile_update_def
  by (auto intro!: issues_only_intros get_profile_commands issues_only_profile_run_incus_input
           simp: profile_command_def split: sum.splits)

lemma profile_create_commands: "issues_only (profile_command p) (profile_create env p)"
  unfolding profile_create_def
  by (auto intro!: issues_only_intros profile_update_commands issues_only_profile_run_incus
           simp: profile_command_def)

lemma profile_delete_commands: "issues_only (profile_command p) (profile_delete env p)"
  unfolding profile_delete_def
  by (auto intro!: issues_only_intros issues_only_profile_run_incus simp: profile_command_def)

lemma profile_run_commands: "issues_only (profile_command p) (profile_run env p)"
  unfolding profile_run_def
  by (auto intro!: issues_only_intros get_profile_commands profile_update_commands
        profile_create_commands profile_delete_commands split: profile_state.splits)

lemma profile_command_not_rename: "profile_command p c \<Longrightarrow> \<not> is_rename c"
  by (cases c) (auto simp: profile_command_def is_rename_def subcommand_incus_cmd)

text \<open>
  C10. The parameter \<^verbatim>\<open>rename_from\<close> has no effect: two invocations that differ only
  in its value issue the same commands and end with the same outcome, from any state of the
  gateway. Every command of a run is a show, create, edit or delete of the profile named by
  \<^verbatim>\<open>name\<close>, so no rename is ever performed.
\<close>

theorem rename_from_ignored:
  "profile_run env (p\<lparr>p_rename_from := r\<rparr>) tr = profile_run env p tr
   \<and> (\<exists>new. snd (profile_run env p tr) = tr @ new
         \<and> (\<forall>c \<in> set new. profile_command p c \<and> \<not> is_rename c))"
proof
  show "profile_run env (p\<lparr>p_rename_from := r\<rparr>) tr = profile_run env p tr"
    by (simp add: profile_run_def rename_from_get_profile rename_from_update rename_from_create
          rename_from_delete cong: if_cong profile_state.case_cong)
next
  from profile_run_commands [of p env] obtain new where
    "snd (profile_run env p tr) = tr @ new" "list_all (profile_command p) new"
    unfolding issues_only_def by blast
  then show "\<exists>new. snd (profile_run env p tr) = tr @ new
         \<and> (\<forall>c \<in> set new. profile_command p c \<and> \<not> is_rename c)"
    by (auto simp: list_all_iff profile_command_not_rename)
qed

theorem rename_from_ignored_witness:
  "profile_run demo_profile_env
     (demo_profile\<lparr>p_description := Some ''new'', p_rename_from := Some ''old-profile''\<rparr>) []
   = profile_run demo_profile_env (demo_profile\<lparr>p_description := Some ''new''\<rparr>) []
   \<and> fst (profile_run demo_profile_env (demo_profile\<lparr>p_description := Some ''new''\<rparr>) [])
       = Inl (ExitJson True ''Profile updated'')
   \<and> map fst (snd (profile_run demo_profile_env (demo_profile\<lparr>p_description := Some ''new''\<rparr>) []))
       = [[''incus'', ''--project'', ''default'', ''profile'', ''show'', ''web-profile''],
          [''incus'', ''--project'', ''default'', ''profile'', ''show'', ''web-profile''],
          [''incus'', ''--project'', ''default'', ''profile'', ''edit'', ''web-profile'']]
   \<and> list_all (\<lambda>c. \<not> is_rename c)
        (snd (profile_run demo_profile_env (demo_profile\<lparr>p_description := Some ''new''\<rparr>) []))"
proof -
  have run: "fst (profile_run demo_profile_env (demo_profile\<lparr>p_description := Some ''new''\<rparr>) [])
       = Inl (ExitJson True ''Profile updated'')
   \<and> map fst (snd (profile_run demo_profile_env (demo_profile\<lparr>p_description := Some ''new''\<rparr>) []))
       = [[''incus'', ''--project'', ''default'', ''profile'', ''show'', ''web-profile''],
          [''incus'', ''--project'', ''default'', ''profile'', ''show'', ''web-profile''],
          [''incus'', ''--project'', ''default'', ''profile'', ''edit'', ''web-profile'']]"
    by (simp add: demo_defs prog_defs profile_defs)
  from rename_from_ignored
    [where env = demo_profile_env and p = "demo_profile\<lparr>p_description := Some ''new''\<rparr>"
       and r = "Some ''old-profile''" and tr = "[]"]
  show ?thesis
    using run by (auto simp: list_all_iff)
qed

section \<open>Reading the current state\<close>

lemma get_profile_returns: "\<exists>v. fst (get_profile env p tr) = Inr v"
  by (simp add: get_profile_def profile_run_incus_def bind_def ret_def Let_def split: prod.splits)

lemma get_profile_absent:
  assumes "gateway env tr (incus_cmd (p_project p) [''profile'', ''show'', profile_target p], None) = (rc, out, err)"
    and "rc \<noteq> 0 \<or> yaml_safe_load env out = Inl e"
  shows "fst (get_profile env p tr) = Inr PNone"
  using assms
  by (auto simp: get_profile_def profile_run_incus_def bind_def ret_def Let_def)

lemma get_volume_info_nonzero:
  assumes "v_name p = Some n"
    and "gateway env tr (incus_cmd (v_project p) [''storage'', ''volume'', ''show'', target_pool p, n], None)
           = (rc, out, err)"
    and "rc \<noteq> 0"
  shows "fst (get_volume_info env p tr) = Inr PNone"
  using assms
  by (simp add: get_volume_info_def volume_run_incus_def bind_def ret_def Let_def)

lemma get_volume_info_decode_failure:
  assumes "v_name p = Some n"
    and "gateway env tr (incus_cmd (v_project p) [''storage'', ''volume'', ''show'', target_pool p, n], None)
           = (0, out, err)"
    and "yaml_safe_load env out = Inl (c, m)" and "c \<noteq> ImportError"
  shows "fst (get_volume_info env p tr) = Inl (Uncaught c)"
  using assms
  by (simp add: get_volume_info_def volume_run_incus_def bind_def ret_def stop_def Let_def)

text \<open>
  C6 fails for the volume. When the show of a volume succeeds and its output cannot be
  decoded, \<^verbatim>\<open>get_volume_info\<close> does not report the volume as absent: the exception of the
  decoder leaves the method, because the handler catches \<^verbatim>\<open>ImportError\<close> only. On the
  same output \<^verbatim>\<open>get_profile\<close>, whose handler is a bare \<^verbatim>\<open>except:\<close>, returns
  \<^verbatim>\<open>None\<close>.
\<close>

theorem volume_decode_failure_raises:
  "get_volume_info malformed_volume_env demo_volume [] =
     (Inl (Uncaught YAMLError),
      [([''incus'', ''--project'', ''default'', ''storage'', ''volume'', ''show'', ''default'', ''data-vol''], None)])
   \<and> fst (volume_run malformed_volume_env demo_volume []) = Inl (Uncaught YAMLError)
   \<and> get_profile malformed_profile_env demo_profile [] =
     (Inr PNone,
      [([''incus'', ''--project'', ''default'', ''profile'', ''show'', ''web-profile''], None)])"
  by (simp add: malformed_volume_env_def malformed_profile_env_def demo_defs prog_defs volume_defs
        get_profile_def profile_run_incus_def profile_target_def)

section \<open>The dispatcher of the volume module\<close>

lemma get_volume_info_trace:
  assumes "get_volume_info env p tr = (Inr cur, tr')"
  shows "\<exists>n. v_name p = Some n \<and> tr' = tr @ [volume_show_cmd p n]"
proof (cases "v_name p")
  case None
  with assms show ?thesis
    by (simp add: get_volume_info_def volume_run_incus_def bind_def)
next
  case (Some n)
  with assms show ?thesis
    by (auto simp: get_volume_info_def volume_run_incus_def bind_def ret_def stop_def Let_def
          volume_show_cmd_def split: prod.splits if_splits sum.splits)
qed

lemma volume_show_cmd_read_only: "read_only (volume_show_cmd p n) \<and> \<not> mutating (volume_show_cmd p n)"
proof -
  have "read_only (volume_show_cmd p n)"
    by (simp add: volume_show_cmd_def read_only_def subcommand_incus_cmd)
  then show ?thesis
    by (simp add: read_only_not_mutating)
qed

text \<open>
  C3, as the code has it. With state \<^verbatim>\<open>present\<close>, a snapshot name and a volume that
  does not exist, the dispatcher does not create anything: the run fails with the message
  \<^verbatim>\<open>Volume '<name>' does not exist\<close>, and the only command issued is the show of the
  volume.
\<close>

theorem present_snapshot_needs_volume:
  "v_state p = VPresent \<and> given (v_snapshot p) \<and> get_volume_info env p tr = (Inr cur, tr') \<and> \<not> truthy cur
   \<longrightarrow> volume_run env p tr =
         (Inl (FailJson (''Volume '' @ [CHR 0x27] @ fmt (v_name p) @ [CHR 0x27] @ '' does not exist'') None), tr')
       \<and> (\<exists>n. v_name p = Some n \<and> tr' = tr @ [volume_show_cmd p n])"
proof
  assume a: "v_state p = VPresent \<and> given (v_snapshot p) \<and> get_volume_info env p tr = (Inr cur, tr') \<and> \<not> truthy cur"
  then have "volume_run env p tr =
         (Inl (FailJson (''Volume '' @ [CHR 0x27] @ fmt (v_name p) @ [CHR 0x27] @ '' does not exist'') None), tr')"
    by (simp add: volume_run_def bind_def fail_json_def stop_def)
  moreover from a have "\<exists>n. v_name p = Some n \<and> tr' = tr @ [volume_show_cmd p n]"
    using get_volume_info_trace by blast
  ultimately show "volume_run env p tr =
         (Inl (FailJson (''Volume '' @ [CHR 0x27] @ fmt (v_name p) @ [CHR 0x27] @ '' does not exist'') None), tr')
       \<and> (\<exists>n. v_name p = Some n \<and> tr' = tr @ [volume_show_cmd p n])"
    by simp
qed

lemma demo_absent_volume:
  "get_volume_info (demo_env [] []) (demo_volume\<lparr>v_snapshot := Some ''s1''\<rparr>) [] =
     (Inr PNone, [([''incus'', ''--project'', ''default'', ''storage'', ''volume'', ''show'', ''default'', ''data-vol''], None)])"
  by (simp add: demo_defs prog_defs volume_defs)

theorem present_snapshot_needs_volume_witness:
  "volume_run (demo_env [] []) (demo_volume\<lparr>v_snapshot := Some ''s1''\<rparr>) [] =
     (Inl (FailJson (''Volume '' @ [CHR 0x27] @ ''data-vol'' @ [CHR 0x27] @ '' does not exist'') None),
      [([''incus'', ''--project'', ''default'', ''storage'', ''volume'', ''show'', ''default'', ''data-vol''], None)])"
proof -
  have "v_state (demo_volume\<lparr>v_snapshot := Some ''s1''\<rparr>) = VPresent
        \<and> given (v_snapshot (demo_volume\<lparr>v_snapshot := Some ''s1''\<rparr>))
        \<and> get_volume_info (demo_env [] []) (demo_volume\<lparr>v_snapshot := Some ''s1''\<rparr>) [] =
            (Inr PNone, [([''incus'', ''--project'', ''default'', ''storage'', ''volume'', ''show'', ''default'', ''data-vol''], None)])
        \<and> \<not> truthy PNone"
    by (simp add: demo_absent_volume) (simp add: demo_volume_def)
  from present_snapshot_needs_volume [rule_format, OF this] show ?thesis
    by (simp add: demo_volume_def)
qed

text \<open>
  The claim fails on the code: no create command follows, the run fails.
\<close>

theorem present_snapshot_without_volume_fails:
  "volume_run (demo_env [] [])
     (demo_volume\<lparr>v_snapshot := Some ''s1'', v_config := Some [(''size'', PStr ''10GiB'')]\<rparr>) [] =
     (Inl (FailJson (''Volume '' @ [CHR 0x27] @ ''data-vol'' @ [CHR 0x27] @ '' does not exist'') None),
      [([''incus'', ''--project'', ''default'', ''storage'', ''volume'', ''show'', ''default'', ''data-vol''], None)])"
  by (simp add: demo_defs prog_defs volume_defs)

text \<open>
  C5, as the code has it. With state \<^verbatim>\<open>restored\<close> and no snapshot name, the run fails
  with the validation message once the current state has been read: the show of the volume
  is issued first, it is the only command, and it only reads.
\<close>

theorem restored_without_snapshot_fails:
  "v_state p = VRestored \<and> \<not> given (v_snapshot p) \<and> get_volume_info env p tr = (Inr cur, tr')
   \<longrightarrow> volume_run env p tr =
         (Inl (FailJson ([CHR 0x27] @ ''snapshot'' @ [CHR 0x27] @ '' is required for state=restored'') None), tr')
       \<and> (\<exists>n. v_name p = Some n \<and> tr' = tr @ [volume_show_cmd p n]
              \<and> read_only (volume_show_cmd p n) \<and> \<not> mutating (volume_show_cmd p n))"
proof
  assume a: "v_state p = VRestored \<and> \<not> given (v_snapshot p) \<and> get_volume_info env p tr = (Inr cur, tr')"
  then have "volume_run env p tr =
         (Inl (FailJson ([CHR 0x27] @ ''snapshot'' @ [CHR 0x27] @ '' is required for state=restored'') None), tr')"
    by (simp add: volume_run_def volume_restore_def bind_def fail_json_def stop_def)
  moreover from a have "\<exists>n. v_name p = Some n \<and> tr' = tr @ [volume_show_cmd p n]"
    using get_volume_info_trace by blast
  ultimately show "volume_run env p tr =
         (Inl (FailJson ([CHR 0x27] @ ''snapshot'' @ [CHR 0x27] @ '' is required for state=restored'') None), tr')
       \<and> (\<exists>n. v_name p = Some n \<and> tr' = tr @ [volume_show_cmd p n]
              \<and> read_only (volume_show_cmd p n) \<and> \<not> mutating (volume_show_cmd p n))"
    using volume_show_cmd_read_only by auto
qed

lemma demo_present_volume:
  "get_volume_info demo_volume_env (demo_volume\<lparr>v_state := VRestored\<rparr>) [] =
     (Inr demo_volume_doc,
      [([''incus'', ''--project'', ''default'', ''storage'', ''volume'', ''show'', ''default'', ''data-vol''], None)])"
  by (simp add: demo_defs prog_defs volume_defs)

theorem restored_without_snapshot_fails_witness:
  "volume_run demo_volume_env (demo_volume\<lparr>v_state := VRestored\<rparr>) [] =
     (Inl (FailJson ([CHR 0x27] @ ''snapshot'' @ [CHR 0x27] @ '' is required for state=restored'') None),
      [([''incus'', ''--project'', ''default'', ''storage'', ''volume'', ''show'', ''default'', ''data-vol''], None)])"
proof -
  have "v_state (demo_volume\<lparr>v_state := VRestored\<rparr>) = VRestored
        \<and> \<not> given (v_snapshot (demo_volume\<lparr>v_state := VRestored\<rparr>))
        \<and> get_volume_info demo_volume_env (demo_volume\<lparr>v_state := VRestored\<rparr>) [] =
            (Inr demo_volume_doc,
             [([''incus'', ''--project'', ''default'', ''storage'', ''volume'', ''show'', ''default'', ''data-vol''], None)])"
    by (simp add: demo_present_volume) (simp add: demo_volume_def)
  from restored_without_snapshot_fails [rule_format, OF this] show ?thesis
    by simp
qed

text \<open>
  The claim fails on the code: a gateway call has been issued when the validation fails.
\<close>

theorem restored_without_snapshot_calls_gateway:
  "volume_run (demo_env [] []) (demo_volume\<lparr>v_state := VRestored, v_snapshot := None\<rparr>) [] =
     (Inl (FailJson ([CHR 0x27] @ ''snapshot'' @ [CHR 0x27] @ '' is required for state=restored'') None),
      [([''incus'', ''--project'', ''default'', ''storage'', ''volume'', ''show'', ''default'', ''data-vol''], None)])"
  by (simp add: demo_defs prog_defs volume_defs volume_restore_def)

section \<open>Creating a snapshot\<close>

lemma snapshot_exists_trace:
  assumes "v_name p = Some n" and "snapshot_exists env p tr1 = (r, tr2)"
  shows "tr2 = tr1 @ [snapshot_show_cmd p n] \<and> r = Inr (fst (gateway env tr1 (snapshot_show_cmd p n)) = 0)"
  using assms
  by (auto simp: snapshot_exists_def volume_run_incus_def bind_def ret_def Let_def snapshot_show_cmd_def
        split: prod.splits)

lemma snapshot_show_cmd_read_only: "read_only (snapshot_show_cmd p n)"
  by (simp add: snapshot_show_cmd_def read_only_def subcommand_incus_cmd)

lemma snapshot_create_cmd_words:
  "take 4 (subcommand (snapshot_create_cmd p)) = [''storage'', ''volume'', ''snapshot'', ''create'']"
  by (simp add: snapshot_create_cmd_def snapshot_create_args_def subcommand_incus_cmd)

lemma volume_run_present_snapshot:
  assumes "v_state p = VPresent" and "given (v_snapshot p)"
    and "get_volume_info env p tr = (Inr cur, tr1)" and "truthy cur"
  shows "volume_run env p tr = volume_create env p tr1"
  using assms by (simp add: volume_run_def bind_def)

lemma volume_create_snapshot:
  assumes "given (v_snapshot p)" and "v_name p = Some n" and "snapshot_exists env p tr1 = (Inr ex, tr2)"
  shows "volume_create env p tr1 =
     (if ex then (Inl (ExitJson False ''Snapshot already exists''), tr2)
      else if v_check_mode p then (Inl (ExitJson True ''Snapshot would be created''), tr2)
      else
        (case gateway env tr2 (snapshot_create_cmd p) of
           (rc, out, err) \<Rightarrow>
             if rc = 0 then Inl (ExitJson True ''Snapshot created'')
             else Inl (FailJson (''Failed to create snapshot: '' @ err) (Some (out, err))),
         tr2 @ [snapshot_create_cmd p]))"
proof -
  from assms(1) obtain s where s: "v_snapshot p = Some s"
    by (cases "v_snapshot p") auto
  with assms show ?thesis
    by (auto simp: volume_create_def bind_def exit_json_def fail_json_def stop_def volume_run_incus_def
          snapshot_create_args_def snapshot_create_cmd_def Let_def split: prod.splits)
qed

text \<open>
  C8, as the code has it. With state \<^verbatim>\<open>present\<close>, a volume that exists and a snapshot
  name, the run reads the volume and the snapshot, two commands that only read. If the
  snapshot exists the outcome is a no-change and nothing else is issued. Otherwise, in
  check mode the outcome is a would-change and nothing else is issued; outside check mode
  exactly one command follows, the creation of the snapshot, and the outcome is Changed
  when it exits with status 0 and a failure when it does not.
\<close>

theorem snapshot_create_idempotent:
  "v_state p = VPresent \<and> given (v_snapshot p) \<and> get_volume_info env p tr = (Inr cur, tr1) \<and> truthy cur
     \<and> snapshot_exists env p tr1 = (Inr ex, tr2)
   \<longrightarrow> (\<exists>n. v_name p = Some n \<and> tr2 = tr @ [volume_show_cmd p n, snapshot_show_cmd p n]
              \<and> read_only (volume_show_cmd p n) \<and> read_only (snapshot_show_cmd p n))
       \<and> (ex \<longrightarrow> volume_run env p tr = (Inl (ExitJson False ''Snapshot already exists''), tr2))
       \<and> (\<not> ex \<and> v_check_mode p \<longrightarrow>
            volume_run env p tr = (Inl (ExitJson True ''Snapshot would be created''), tr2))
       \<and> (\<not> ex \<and> \<not> v_check_mode p \<longrightarrow>
            snd (volume_run env p tr) = tr2 @ [snapshot_create_cmd p]
            \<and> take 4 (subcommand (snapshot_create_cmd p)) = [''storage'', ''volume'', ''snapshot'', ''create'']
            \<and> fst (volume_run env p tr) =
                (case gateway env tr2 (snapshot_create_cmd p) of
                   (rc, out, err) \<Rightarrow>
                     if rc = 0 then Inl (ExitJson True ''Snapshot created'')
                     else Inl (FailJson (''Failed to create snapshot: '' @ err) (Some (out, err)))))"
proof
  assume a: "v_state p = VPresent \<and> given (v_snapshot p) \<and> get_volume_info env p tr = (Inr cur, tr1) \<and> truthy cur
     \<and> snapshot_exists env p tr1 = (Inr ex, tr2)"
  then obtain n where n: "v_name p = Some n" "tr1 = tr @ [volume_show_cmd p n]"
    using get_volume_info_trace by blast
  from a n have tr2: "tr2 = tr @ [volume_show_cmd p n, snapshot_show_cmd p n]"
    using snapshot_exists_trace [of p n env tr1 "Inr ex" tr2] by simp
  from a have run: "volume_run env p tr = volume_create env p tr1"
    using volume_run_present_snapshot by blast
  from a n have create: "volume_create env p tr1 =
     (if ex then (Inl (ExitJson False ''Snapshot already exists''), tr2)
      else if v_check_mode p then (Inl (ExitJson True ''Snapshot would be created''), tr2)
      else
        (case gateway env tr2 (snapshot_create_cmd p) of
           (rc, out, err) \<Rightarrow>
             if rc = 0 then Inl (ExitJson True ''Snapshot created'')
             else Inl (FailJson (''Failed to create snapshot: '' @ err) (Some (out, err))),
         tr2 @ [snapshot_create_cmd p]))"
    using volume_create_snapshot by blast
  have first: "\<exists>n. v_name p = Some n \<and> tr2 = tr @ [volume_show_cmd p n, snapshot_show_cmd p n]
              \<and> read_only (volume_show_cmd p n) \<and> read_only (snapshot_show_cmd p n)"
    using n tr2 volume_show_cmd_read_only snapshot_show_cmd_read_only by blast
  show "(\<exists>n. v_name p = Some n \<and> tr2 = tr @ [volume_show_cmd p n, snapshot_show_cmd p n]
              \<and> read_only (volume_show_cmd p n) \<and> read_only (snapshot_show_cmd p n))
       \<and> (ex \<longrightarrow> volume_run env p tr = (Inl (ExitJson False ''Snapshot already exists''), tr2))
       \<and> (\<not> ex \<and> v_check_mode p \<longrightarrow>
            volume_run env p tr = (Inl (ExitJson True ''Snapshot would be created''), tr2))
       \<and> (\<not> ex \<and> \<not> v_check_mode p \<longrightarrow>
            snd (volume_run env p tr) = tr2 @ [snapshot_create_cmd p]
            \<and> take 4 (subcommand (snapshot_create_cmd p)) = [''storage'', ''volume'', ''snapshot'', ''create'']
            \<and> fst (volume_run env p tr) =
                (case gateway env tr2 (snapshot_create_cmd p) of
                   (rc, out, err) \<Rightarrow>
                     if rc = 0 then Inl (ExitJson True ''Snapshot created'')
                     else Inl (FailJson (''Failed to create snapshot: '' @ err) (Some (out, err)))))"
    using first run create snapshot_create_cmd_words by simp
qed


lemma snapshot_first_reads:
  "get_volume_info snapshot_env (demo_volume\<lparr>v_snapshot := Some ''s1''\<rparr>) [] =
     (Inr demo_volume_doc,
      [([''incus'', ''--project'', ''default'', ''storage'', ''volume'', ''show'', ''default'', ''data-vol''], None)])
   \<and> snapshot_exists snapshot_env (demo_volume\<lparr>v_snapshot := Some ''s1''\<rparr>)
       [([''incus'', ''--project'', ''default'', ''storage'', ''volume'', ''show'', ''default'', ''data-vol''], None)] =
     (Inr False,
      [([''incus'', ''--project'', ''default'', ''storage'', ''volume'', ''show'', ''default'', ''data-vol''], None),
       ([''incus'', ''--project'', ''default'', ''storage'', ''volume'', ''show'', ''default'', ''data-vol/s1''], None)])"
  by (simp add: snapshot_env_def snapshot_gateway_def snapshot_create_words_def demo_defs prog_defs
        volume_defs)

lemma snapshot_second_run:
  "volume_run snapshot_env (demo_volume\<lparr>v_snapshot := Some ''s1''\<rparr>)
     [([''incus'', ''--project'', ''default'', ''storage'', ''volume'', ''show'', ''default'', ''data-vol''], None),
      ([''incus'', ''--project'', ''default'', ''storage'', ''volume'', ''show'', ''default'', ''data-vol/s1''], None),
      ([''incus'', ''--project'', ''default'', ''storage'', ''volume'', ''snapshot'', ''create'', ''default'',
        ''data-vol'', ''s1''], None)] =
     (Inl (ExitJson False ''Snapshot already exists''),
      [([''incus'', ''--project'', ''default'', ''storage'', ''volume'', ''show'', ''default'', ''data-vol''], None),
       ([''incus'', ''--project'', ''default'', ''storage'', ''volume'', ''show'', ''default'', ''data-vol/s1''], None),
       ([''incus'', ''--project'', ''default'', ''storage'', ''volume'', ''snapshot'', ''create'', ''default'',
         ''data-vol'', ''s1''], None),
       ([''incus'', ''--project'', ''default'', ''storage'', ''volume'', ''show'', ''default'', ''data-vol''], None),
       ([''incus'', ''--project'', ''default'', ''storage'', ''volume'', ''show'', ''default'', ''data-vol/s1''], None)])"
  by (simp add: snapshot_env_def snapshot_gateway_def snapshot_create_words_def demo_defs prog_defs
        volume_defs volume_create_def)

theorem snapshot_create_idempotent_witness:
  "volume_run snapshot_env (demo_volume\<lparr>v_snapshot := Some ''s1''\<rparr>) [] =
     (Inl (ExitJson True ''Snapshot created''),
      [([''incus'', ''--project'', ''default'', ''storage'', ''volume'', ''show'', ''default'', ''data-vol''], None),
       ([''incus'', ''--project'', ''default'', ''storage'', ''volume'', ''show'', ''default'', ''data-vol/s1''], None),
       ([''incus'', ''--project'', ''default'', ''storage'', ''volume'', ''snapshot'', ''create'', ''default'',
         ''data-vol'', ''s1''], None)])
   \<and> volume_run snapshot_env (demo_volume\<lparr>v_snapshot := Some ''s1''\<rparr>)
       (snd (volume_run snapshot_env (demo_volume\<lparr>v_snapshot := Some ''s1''\<rparr>) [])) =
     (Inl (ExitJson False ''Snapshot already exists''),
      snd (volume_run snapshot_env (demo_volume\<lparr>v_snapshot := Some ''s1''\<rparr>) [])
      @ [([''incus'', ''--project'', ''default'', ''storage'', ''volume'', ''show'', ''default'', ''data-vol''], None),
         ([''incus'', ''--project'', ''default'', ''storage'', ''volume'', ''show'', ''default'', ''data-vol/s1''], None)])"
proof -
  have hyp: "v_state (demo_volume\<lparr>v_snapshot := Some ''s1''\<rparr>) = VPresent
      \<and> given (v_snapshot (demo_volume\<lparr>v_snapshot := Some ''s1''\<rparr>))
      \<and> get_volume_info snapshot_env (demo_volume\<lparr>v_snapshot := Some ''s1''\<rparr>) [] =
          (Inr demo_volume_doc,
           [([''incus'', ''--project'', ''default'', ''storage'', ''volume'', ''show'', ''default'', ''data-vol''], None)])
      \<and> truthy demo_volume_doc
      \<and> snapshot_exists snapshot_env (demo_volume\<lparr>v_snapshot := Some ''s1''\<rparr>)
          [([''incus'', ''--project'', ''default'', ''storage'', ''volume'', ''show'', ''default'', ''data-vol''], None)] =
        (Inr False,
         [([''incus'', ''--project'', ''default'', ''storage'', ''volume'', ''show'', ''default'', ''data-vol''], None),
          ([''incus'', ''--project'', ''default'', ''storage'', ''volume'', ''show'', ''default'', ''data-vol/s1''], None)])"
    using snapshot_first_reads by (simp add: demo_volume_def demo_volume_doc_def)
  have cmd: "snapshot_create_cmd (demo_volume\<lparr>v_snapshot := Some ''s1''\<rparr>) =
      ([''incus'', ''--project'', ''default'', ''storage'', ''volume'', ''snapshot'', ''create'', ''default'',
        ''data-vol'', ''s1''], None)"
    by (simp add: snapshot_create_cmd_def snapshot_create_args_def demo_volume_def prog_defs target_pool_def)
  have nocheck: "\<not> v_check_mode (demo_volume\<lparr>v_snapshot := Some ''s1''\<rparr>)"
    by (simp add: demo_volume_def)
  from snapshot_create_idempotent [rule_format, OF hyp, THEN conjunct2, THEN conjunct2, THEN conjunct2,
      rule_format, OF conjI [OF _ nocheck]]
  have first: "volume_run snapshot_env (demo_volume\<lparr>v_snapshot := Some ''s1''\<rparr>) [] =
     (Inl (ExitJson True ''Snapshot created''),
      [([''incus'', ''--project'', ''default'', ''storage'', ''volume'', ''show'', ''default'', ''data-vol''], None),
       ([''incus'', ''--project'', ''default'', ''storage'', ''volume'', ''show'', ''default'', ''data-vol/s1''], None),
       ([''incus'', ''--project'', ''default'', ''storage'', ''volume'', ''snapshot'', ''create'', ''default'',
         ''data-vol'', ''s1''], None)])"
    by (simp add: cmd prod_eq_iff snapshot_env_def snapshot_gateway_def snapshot_create_words_def
          volume_show_words_def)
  show ?thesis
    unfolding first using snapshot_second_run by simp
qed

text \<open>
  The claim fails on the code when the snapshot is missing: in check mode no create command
  is issued, and a create command that fails gives a failure, not Changed.
\<close>

theorem snapshot_create_not_always_changed:
  "volume_run demo_volume_env (demo_volume\<lparr>v_snapshot := Some ''s1'', v_check_mode := True\<rparr>) [] =
     (Inl (ExitJson True ''Snapshot would be created''),
      [([''incus'', ''--project'', ''default'', ''storage'', ''volume'', ''show'', ''default'', ''data-vol''], None),
       ([''incus'', ''--project'', ''default'', ''storage'', ''volume'', ''show'', ''default'', ''data-vol/s1''], None)])
   \<and> volume_run demo_volume_env (demo_volume\<lparr>v_snapshot := Some ''s1''\<rparr>) [] =
     (Inl (FailJson ''Failed to create snapshot: Error: not found'' (Some ([], ''Error: not found''))),
      [([''incus'', ''--project'', ''default'', ''storage'', ''volume'', ''show'', ''default'', ''data-vol''], None),
       ([''incus'', ''--project'', ''default'', ''storage'', ''volume'', ''show'', ''default'', ''data-vol/s1''], None),
       ([''incus'', ''--project'', ''default'', ''storage'', ''volume'', ''snapshot'', ''create'', ''default'',
         ''data-vol'', ''s1''], None)])"
  by (simp add: demo_defs prog_defs volume_defs volume_create_def snapshot_create_args_def)

section \<open>Updating a volume\<close>























































end
